theory Spec2Isabelle
  imports Main
begin

section \<open>Data model\<close>

text \<open>
  The deployment script \<^verbatim>\<open>grok.copilot.ts\<close> talks to three things outside itself: the
  process environment, two files under \<^verbatim>\<open>.cache/\<close>, and the network (a ledger RPC endpoint
  and a fee-paying relayer). Each is made explicit here.

  Public keys are kept in their base58 text form. A \<^verbatim>\<open>Keypair\<close> is identified with its
  public key: the script never looks at the secret half except to sign.

  The libraries are taken as they behave when called the way the script calls them
  (\<^verbatim>\<open>@solana/web3.js\<close> 1.95, \<^verbatim>\<open>@solana/spl-token\<close> 0.4, \<^verbatim>\<open>mpl-token-metadata\<close> 3.2, the
  versions of the script's own \<^verbatim>\<open>package.json\<close>), not as the script expects them to:

    \<^item> \<^verbatim>\<open>createMint\<close>, \<^verbatim>\<open>getOrCreateAssociatedTokenAccount\<close>, \<^verbatim>\<open>mintTo\<close> and \<^verbatim>\<open>setAuthority\<close>
      are actions: given the connection and a payer, each sends a transaction of its own
      to the ledger and resolves to an address, an account object or a signature, never
      to an instruction;
    \<^item> \<^verbatim>\<open>Transaction.add\<close> throws on \<^verbatim>\<open>undefined\<close> and on a string, and wraps any other
      object;
    \<^item> \<^verbatim>\<open>Transaction.partialSign\<close> compiles the message first and throws while the
      transaction has no recent blockhash;
    \<^item> \<^verbatim>\<open>getTokenAccountBalance\<close> is not an export of \<^verbatim>\<open>@solana/spl-token\<close>, so the imported
      name is \<^verbatim>\<open>undefined\<close> and calling it throws;
    \<^item> the answer of \<^verbatim>\<open>getTokenSupply\<close> is a token amount and carries no authority.

  The message of a \<^verbatim>\<open>TypeError\<close> is the engine's; a short form of it is kept. Constructing
  a \<^verbatim>\<open>Connection\<close> and serializing are taken not to fail. The two cache files,
  when present, hold what the script writes into them (a key pair, an object with a
  \<^verbatim>\<open>mint\<close> field). Times are not measured: a delay is recorded as an event.
\<close>

type_synonym pubkey = string

record process_env =
  RPC_URL :: "string option"
  RELAYER_URL :: "string option"
  RELAYER_PUBKEY :: "string option"
  TREASURY_PUBKEY :: "string option"
  DAO_PUBKEY :: "string option"
  AUTHORITY_MODE :: "string option"
  DRY_RUN :: "string option"
  RELAYER_API_KEY :: "string option"

datatype authority_type = MintTokens | FreezeAccount

text \<open>
  A call of one of the token library's actions, with the arguments the script gives it
  (payer first), and a call of one of the two builders of the metadata library. The
  constant metadata payload (name, symbol, uri) is the same in the create and the update
  shape and is left out.
\<close>

datatype action =
    CreateMint pubkey pubkey pubkey nat pubkey
  | GetOrCreateAssociatedTokenAccount pubkey pubkey pubkey
  | MintTo pubkey pubkey pubkey pubkey nat
  | SetAuthority pubkey pubkey pubkey authority_type "pubkey option"

datatype metadata_call =
    UpdateMetadataAccountV3 pubkey pubkey
  | CreateMetadataAccountV3 pubkey pubkey pubkey pubkey pubkey

text \<open>
  What the script hands to \<^verbatim>\<open>Transaction.add\<close>: \<^verbatim>\<open>undefined\<close>, a signature (a string), the
  address that \<^verbatim>\<open>createMint\<close> resolves to, the object a metadata builder returns, or a
  well-formed instruction of a program with its data. A transaction keeps the items it
  accepted.
\<close>

datatype item =
    Undefined
  | Signature string
  | Address pubkey
  | Built metadata_call
  | Instruction pubkey string

text \<open>The account object of \<^verbatim>\<open>getOrCreateAssociatedTokenAccount\<close>: its mint and its owner.\<close>

datatype account_object = Account pubkey pubkey

record transaction =
  instructions :: "item list"
  signers :: "pubkey list"
  feePayer :: "pubkey option"
  recentBlockhash :: "string option"

text \<open>
  What the ledger answers to a read. \<open>rpc_error = Some msg\<close> is an unreachable or failing
  endpoint: every request rejects with \<open>msg\<close>.
\<close>

record chain =
  rpc_error :: "string option"
  blockhash :: string
  lastValidBlockHeight :: nat
  account_exists :: "pubkey \<Rightarrow> bool"
  token_amount :: "pubkey \<Rightarrow> nat"
  mintAuthority :: "pubkey \<Rightarrow> pubkey option"
  freezeAuthority :: "pubkey \<Rightarrow> pubkey option"

text \<open>The relayer's JSON answer, and the two ways each network wait can end.\<close>

record relay_reply =
  success :: bool
  txSignature :: string
  error :: "string option"

datatype fetch_result = FetchRejects string | FetchResolves relay_reply

datatype confirm_result = ConfirmRejects string | ConfirmResolves "string option"

text \<open>
  Everything the script does that leaves the process is recorded, in order: ledger reads,
  the actions of the token library (each is traffic of the library's own with the ledger,
  not with the relayer), the serialization of a transaction, the POST to the relayer, the
  confirmation wait and the delay between attempts. Of the console output only the closing
  line of Lock-Authorities is kept, which names the mint and the target it resolved.
\<close>

datatype event =
    GetLatestBlockhash
  | GetAccountInfo pubkey
  | GetTokenSupply pubkey
  | GetMint pubkey
  | Action action
  | Serialize transaction
  | Post string "string option" transaction
  | ConfirmTransaction string string nat
  | Sleep nat
  | AuthoritiesSet pubkey "pubkey option"

text \<open>
  The collaborators whose code is not part of the script. \<open>fetch\<close> and \<open>confirm\<close> are the
  relayer and the ledger seen from the submitter: they are indexed by the number of POSTs
  made so far, may answer anything, and may change the ledger in any way. \<open>library\<close> is
  the ledger seen from an action of the token library: the action rejects with a message
  or resolves (with a signature, for the actions that return one), and may change the
  ledger in any way. \<open>build_metadata\<close> says whether a builder of the metadata library,
  called with the one argument the script gives it, throws (\<open>Some msg\<close>) or returns.
\<close>

record externals =
  is_pubkey :: "string \<Rightarrow> bool"
  generate :: "nat \<Rightarrow> pubkey"
  findProgramAddressSync :: "string list \<Rightarrow> pubkey \<Rightarrow> pubkey"
  fetch :: "nat \<Rightarrow> string \<Rightarrow> string option \<Rightarrow> transaction \<Rightarrow> chain \<Rightarrow> fetch_result \<times> chain"
  confirm :: "nat \<Rightarrow> string \<Rightarrow> chain \<Rightarrow> confirm_result \<times> chain"
  library :: "action \<Rightarrow> chain \<Rightarrow> (string + string) \<times> chain"
  build_metadata :: "metadata_call \<Rightarrow> string option"

text \<open>
  The mutable state: the environment (\<^verbatim>\<open>process.env\<close> is written by the menu), the cache
  directory with the deployment checkpoint \<^verbatim>\<open>mint.json\<close> and the identity file
  \<^verbatim>\<open>user_auth.json\<close>, the ledger, and the bookkeeping of the model (how many keypairs were
  generated, how many POSTs were made, the events so far).
\<close>

record world =
  env :: process_env
  cache_dir :: bool
  mint_json :: "string option"
  user_auth_json :: "pubkey option"
  chain :: chain
  keys_generated :: nat
  posts :: nat
  trace :: "event list"

section \<open>Effects and errors\<close>

text \<open>
  An \<^verbatim>\<open>async\<close> function is a state transformer that either returns a value or throws an
  \<^verbatim>\<open>Error\<close>, of which only the message is kept.
\<close>

type_synonym 'a io = "world \<Rightarrow> (string + 'a) \<times> world"

definition returnOk :: "'a \<Rightarrow> 'a io" where
  "returnOk x w = (Inr x, w)"

definition throwError :: "string \<Rightarrow> 'a io" where
  "throwError msg w = (Inl msg, w)"

definition bindE :: "'a io \<Rightarrow> ('a \<Rightarrow> 'b io) \<Rightarrow> 'b io" where
  "bindE m f w = (case m w of (Inl e, w') \<Rightarrow> (Inl e, w') | (Inr x, w') \<Rightarrow> f x w')"

definition catchE :: "'a io \<Rightarrow> (string \<Rightarrow> 'a io) \<Rightarrow> 'a io" where
  "catchE m h w = (case m w of (Inl e, w') \<Rightarrow> h e w' | (Inr x, w') \<Rightarrow> (Inr x, w'))"

definition gets :: "(world \<Rightarrow> 'a) \<Rightarrow> 'a io" where
  "gets f w = (Inr (f w), w)"

definition emit :: "event \<Rightarrow> unit io" where
  "emit e w = (Inr (), w\<lparr>trace := trace w @ [e]\<rparr>)"

definition rpc :: "event \<Rightarrow> (chain \<Rightarrow> 'a) \<Rightarrow> 'a io" where
  "rpc e f w =
     (case rpc_error (chain w) of
        Some msg \<Rightarrow> (Inl msg, w\<lparr>trace := trace w @ [e]\<rparr>)
      | None \<Rightarrow> (Inr (f (chain w)), w\<lparr>trace := trace w @ [e]\<rparr>))"

text \<open>JavaScript truthiness of a possibly undefined string, and \<^verbatim>\<open>v || d\<close>.\<close>

definition truthy :: "string option \<Rightarrow> bool" where
  "truthy v = (case v of None \<Rightarrow> False | Some s \<Rightarrow> s \<noteq> [])"

definition or_else :: "string option \<Rightarrow> string \<Rightarrow> string" where
  "or_else v d = (case v of None \<Rightarrow> d | Some s \<Rightarrow> if s = [] then d else s)"

definition digit :: "nat \<Rightarrow> char" where
  "digit d = ''0123456789'' ! d"

function show_nat :: "nat \<Rightarrow> string" where
  "show_nat n = (if n < 10 then [digit n] else show_nat (n div 10) @ [digit (n mod 10)])"
  by pat_completeness auto
termination
  by (relation "measure id") auto

declare show_nat.simps [simp del]

text \<open>
  \<^verbatim>\<open>new PublicKey(v)\<close> throws on text that is not a key; an undefined value is taken to
  throw as well.
\<close>

definition new_PublicKey :: "externals \<Rightarrow> string option \<Rightarrow> pubkey io" where
  "new_PublicKey X v =
     (case v of
        None \<Rightarrow> throwError ''Invalid public key input''
      | Some s \<Rightarrow> if is_pubkey X s then returnOk s else throwError ''Invalid public key input'')"

section \<open>Utility functions\<close>

definition TOKEN_2022_PROGRAM_ID :: pubkey where
  "TOKEN_2022_PROGRAM_ID = ''TokenzQdBNbLqP5VEhdkAS6EPFLC1PHnBqCXEpPxuEb''"

definition OWNER_ADDRESS :: string where
  "OWNER_ADDRESS = ''EdFC98d1BBhJkeh7KDq26TwEGLeznhoyYsY6Y8LFY4y6''"

definition findMetadataPda :: "externals \<Rightarrow> pubkey \<Rightarrow> pubkey" where
  "findMetadataPda X mint =
     findProgramAddressSync X
       [''metadata'', ''metaqbxxUerdq28cj1RbAWkYQm3ybzjb6a8bt518x1s'', mint]
       ''metaqbxxUerdq28cj1RbAWkYQm3ybzjb6a8bt518x1s''"

definition findAssociatedTokenAddress :: "externals \<Rightarrow> pubkey \<Rightarrow> pubkey \<Rightarrow> pubkey" where
  "findAssociatedTokenAddress X owner mint =
     findProgramAddressSync X
       [owner, TOKEN_2022_PROGRAM_ID, mint]
       ''ATokenGPvbdGVxr1b2hvZbsiqW5xWH25efTNsLJA8knL''"

text \<open>
  The identity store: the persisted keypair when the file exists, otherwise a fresh one,
  written after the cache directory has been made.
\<close>

definition loadOrCreateUserAuth :: "externals \<Rightarrow> pubkey io" where
  "loadOrCreateUserAuth X w =
     (case user_auth_json w of
        Some keypair \<Rightarrow> (Inr keypair, w)
      | None \<Rightarrow>
          (let keypair = generate X (keys_generated w)
           in (Inr keypair,
               w\<lparr>keys_generated := keys_generated w + 1,
                 cache_dir := True,
                 user_auth_json := Some keypair\<rparr>)))"

section \<open>The relay submitter\<close>

text \<open>
  The body of the \<^verbatim>\<open>try\<close> block of one attempt: POST the payload, throw when the reply
  does not report success, then wait for the confirmation. The confirmation wait is
  inside the \<^verbatim>\<open>try\<close>; what it resolves to is not inspected.
\<close>

definition relay_attempt ::
  "externals \<Rightarrow> string \<Rightarrow> string option \<Rightarrow> transaction \<Rightarrow> string \<Rightarrow> nat \<Rightarrow> nat \<Rightarrow> string io" where
  "relay_attempt X relayerUrl authorization tx bh lvbh attempt w =
     (case fetch X (posts w) relayerUrl authorization tx (chain w) of (res, c1) \<Rightarrow>
        (let w1 = w\<lparr>chain := c1, posts := posts w + 1,
                    trace := trace w @ [Post relayerUrl authorization tx]\<rparr>
         in case res of
              FetchRejects msg \<Rightarrow> (Inl msg, w1)
            | FetchResolves j \<Rightarrow>
                if \<not> success j
                then (Inl (or_else (error j)
                             (''Relayer error (attempt '' @ show_nat attempt @ '')'')), w1)
                else (case confirm X (posts w) (txSignature j) c1 of (cr, c2) \<Rightarrow>
                        (let w2 = w1\<lparr>chain := c2,
                                     trace := trace w1 @ [ConfirmTransaction (txSignature j) bh lvbh]\<rparr>
                         in case cr of
                              ConfirmRejects msg \<Rightarrow> (Inl msg, w2)
                            | ConfirmResolves err \<Rightarrow> (Inr (txSignature j), w2)))))"

text \<open>
  The \<^verbatim>\<open>for (let attempt = 1; attempt <= 3; attempt++)\<close> loop with its \<^verbatim>\<open>catch\<close>: whatever
  the attempt threw, the third attempt rethrows it wrapped, an earlier one waits 1000 ms
  and goes round again. The \<^verbatim>\<open>throw\<close> after the loop is the last branch.
\<close>

function relay_loop ::
  "externals \<Rightarrow> string \<Rightarrow> string option \<Rightarrow> transaction \<Rightarrow> string \<Rightarrow> nat \<Rightarrow> nat \<Rightarrow> string io" where
  "relay_loop X relayerUrl authorization tx bh lvbh attempt w =
     (if attempt \<le> 3
      then (case relay_attempt X relayerUrl authorization tx bh lvbh attempt w of
              (Inr signature, w') \<Rightarrow> (Inr signature, w')
            | (Inl e, w') \<Rightarrow>
                if attempt = 3
                then (Inl (''Relayer failed after 3 attempts: '' @ e), w')
                else relay_loop X relayerUrl authorization tx bh lvbh (attempt + 1)
                       (w'\<lparr>trace := trace w' @ [Sleep 1000]\<rparr>))
      else (Inl ''Relayer unreachable'', w))"
  by pat_completeness auto
termination
  by (relation "measure (\<lambda>(X, relayerUrl, authorization, tx, bh, lvbh, attempt, w). 4 - attempt)") auto

declare relay_loop.simps [simp del]

text \<open>The \<^verbatim>\<open>Authorization\<close> header, present only for a truthy key.\<close>

definition bearer :: "string option \<Rightarrow> string option" where
  "bearer apiKey = (if truthy apiKey then Some (''Bearer '' @ the apiKey) else None)"

definition sendViaRelayer ::
  "externals \<Rightarrow> string \<Rightarrow> string \<Rightarrow> transaction \<Rightarrow> string option \<Rightarrow> string io" where
  "sendViaRelayer X relayerPubkey relayerUrl tx apiKey =
     bindE (new_PublicKey X (Some relayerPubkey)) (\<lambda>payer.
     bindE (rpc GetLatestBlockhash (\<lambda>c. (blockhash c, lastValidBlockHeight c))) (\<lambda>(bh, lvbh).
     (let tx' = tx\<lparr>feePayer := Some payer, recentBlockhash := Some bh\<rparr>
      in bindE (emit (Serialize tx')) (\<lambda>_.
         bindE (gets (\<lambda>w. DRY_RUN (env w))) (\<lambda>dry.
           if dry = Some ''true''
           then returnOk ''DRY_RUN_SIGNATURE''
           else relay_loop X relayerUrl (bearer apiKey) tx' bh lvbh 1)))))"

section \<open>Library calls\<close>

text \<open>
  An action of the token library: it is recorded, the ledger is whatever the action left,
  and the call rejects or resolves as the collaborator says.
\<close>

definition act :: "externals \<Rightarrow> action \<Rightarrow> string io" where
  "act X a w =
     (case library X a (chain w) of
        (r, c) \<Rightarrow> (r, w\<lparr>chain := c, trace := trace w @ [Action a]\<rparr>))"

text \<open>
  \<^verbatim>\<open>createMint\<close> resolves to the address of the new mint, \<^verbatim>\<open>mintTo\<close> and \<^verbatim>\<open>setAuthority\<close> to
  the signature of the transaction they sent, \<^verbatim>\<open>getOrCreateAssociatedTokenAccount\<close> to an
  account object. Such an object has no \<^verbatim>\<open>instruction\<close> property: reading it gives
  \<^verbatim>\<open>undefined\<close>.
\<close>

definition createMint :: "externals \<Rightarrow> pubkey \<Rightarrow> pubkey \<Rightarrow> pubkey \<Rightarrow> nat \<Rightarrow> pubkey \<Rightarrow> item io" where
  "createMint X payer mintAuth freezeAuth decimals keypair =
     bindE (act X (CreateMint payer mintAuth freezeAuth decimals keypair)) (\<lambda>_.
     returnOk (Address keypair))"

definition getOrCreateAssociatedTokenAccount ::
  "externals \<Rightarrow> pubkey \<Rightarrow> pubkey \<Rightarrow> pubkey \<Rightarrow> account_object io" where
  "getOrCreateAssociatedTokenAccount X payer mint owner =
     bindE (act X (GetOrCreateAssociatedTokenAccount payer mint owner)) (\<lambda>_.
     returnOk (Account mint owner))"

definition instruction_property :: "account_object \<Rightarrow> item" where
  "instruction_property account = Undefined"

definition mintTo ::
  "externals \<Rightarrow> pubkey \<Rightarrow> pubkey \<Rightarrow> pubkey \<Rightarrow> pubkey \<Rightarrow> nat \<Rightarrow> item io" where
  "mintTo X payer mint destination authority amount =
     bindE (act X (MintTo payer mint destination authority amount)) (\<lambda>signature.
     returnOk (Signature signature))"

definition setAuthority ::
  "externals \<Rightarrow> pubkey \<Rightarrow> pubkey \<Rightarrow> pubkey \<Rightarrow> authority_type \<Rightarrow> pubkey option \<Rightarrow> item io" where
  "setAuthority X payer account currentAuthority authType newAuthority =
     bindE (act X (SetAuthority payer account currentAuthority authType newAuthority))
       (\<lambda>signature. returnOk (Signature signature))"

text \<open>A builder of the metadata library, called with the script's single argument.\<close>

definition build :: "externals \<Rightarrow> metadata_call \<Rightarrow> item io" where
  "build X c =
     (case build_metadata X c of
        Some msg \<Rightarrow> throwError msg
      | None \<Rightarrow> returnOk (Built c))"

text \<open>
  \<^verbatim>\<open>new Transaction()\<close>, \<^verbatim>\<open>add\<close> and \<^verbatim>\<open>partialSign\<close>. \<^verbatim>\<open>add\<close> tests its argument with the
  \<^verbatim>\<open>in\<close> operator, which throws a \<^verbatim>\<open>TypeError\<close> on \<^verbatim>\<open>undefined\<close> and on a string.
  \<^verbatim>\<open>partialSign\<close> refuses an empty list of signers, then compiles the message: that needs
  the recent blockhash and a fee payer (the explicit one or the first signer so far).
\<close>

definition new_Transaction :: transaction where
  "new_Transaction = \<lparr>instructions = [], signers = [], feePayer = None, recentBlockhash = None\<rparr>"

definition Transaction_add :: "transaction \<Rightarrow> item \<Rightarrow> transaction io" where
  "Transaction_add tx v =
     (case v of
        Undefined \<Rightarrow> throwError ''TypeError: Cannot use in operator to search for instructions in undefined''
      | Signature s \<Rightarrow> throwError ''TypeError: Cannot use in operator to search for instructions in a string''
      | Address a \<Rightarrow> returnOk (tx\<lparr>instructions := instructions tx @ [v]\<rparr>)
      | Built c \<Rightarrow> returnOk (tx\<lparr>instructions := instructions tx @ [v]\<rparr>)
      | Instruction p d \<Rightarrow> returnOk (tx\<lparr>instructions := instructions tx @ [v]\<rparr>))"

definition partialSign :: "transaction \<Rightarrow> pubkey list \<Rightarrow> transaction io" where
  "partialSign tx ss =
     (if ss = [] then throwError ''No signers''
      else if recentBlockhash tx = None then throwError ''Transaction recentBlockhash required''
      else if feePayer tx = None \<and> signers tx = [] then throwError ''Transaction fee payer required''
      else returnOk (tx\<lparr>signers := signers tx @ ss\<rparr>))"

text \<open>
  \<^verbatim>\<open>getTokenAccountBalance\<close> as the script imports it: the module has no such export, so
  the call throws whatever it is given (one argument in Mint-Supply, three in the status
  display).
\<close>

definition getTokenAccountBalance :: "pubkey \<Rightarrow> nat io" where
  "getTokenAccountBalance a = throwError ''TypeError: getTokenAccountBalance is not a function''"

section \<open>Step executors\<close>

text \<open>
  Reading \<^verbatim>\<open>process.env\<close>: a variable that is not set prints as \<^verbatim>\<open>undefined\<close> where
  the script passes it on as text.
\<close>

definition env_PublicKey :: "externals \<Rightarrow> (process_env \<Rightarrow> string option) \<Rightarrow> pubkey io" where
  "env_PublicKey X var = bindE (gets (\<lambda>w. var (env w))) (new_PublicKey X)"

definition env_string :: "string option \<Rightarrow> string" where
  "env_string v = (case v of None \<Rightarrow> ''undefined'' | Some s \<Rightarrow> s)"

definition Keypair_generate :: "externals \<Rightarrow> pubkey io" where
  "Keypair_generate X w =
     (Inr (generate X (keys_generated w)), w\<lparr>keys_generated := keys_generated w + 1\<rparr>)"

definition getAccountInfo :: "pubkey \<Rightarrow> bool io" where
  "getAccountInfo a = rpc (GetAccountInfo a) (\<lambda>c. account_exists c a)"

definition submit :: "externals \<Rightarrow> pubkey \<Rightarrow> transaction \<Rightarrow> string io" where
  "submit X relayerPubkey tx =
     bindE (gets env) (\<lambda>e.
       sendViaRelayer X relayerPubkey (env_string (RELAYER_URL e)) tx (RELAYER_API_KEY e))"

text \<open>
  The two lines every step ends with: \<^verbatim>\<open>tx.partialSign(...)\<close>, then the call of the
  submitter, which is where the transaction would get its blockhash.
\<close>

definition sign_and_send :: "externals \<Rightarrow> pubkey \<Rightarrow> pubkey list \<Rightarrow> transaction \<Rightarrow> string io" where
  "sign_and_send X relayerPubkey ss tx =
     bindE (partialSign tx ss) (\<lambda>signed. submit X relayerPubkey signed)"

definition write_mint_cache :: "pubkey \<Rightarrow> unit io" where
  "write_mint_cache mint w = (Inr (), w\<lparr>cache_dir := True, mint_json := Some mint\<rparr>)"

text \<open>
  Create-Asset. The early \<^verbatim>\<open>return\<close> of the cached mint is the \<open>Some\<close> branch of the
  third step: it is taken only when \<^verbatim>\<open>mint.json\<close> exists and the ledger has an account
  at the address it holds. Otherwise \<^verbatim>\<open>createMint\<close> is awaited for a fresh key pair and
  what it resolves to is added to a new transaction.
\<close>

definition createTokenMint :: "externals \<Rightarrow> pubkey io" where
  "createTokenMint X =
     bindE (loadOrCreateUserAuth X) (\<lambda>userAuth.
     bindE (env_PublicKey X RELAYER_PUBKEY) (\<lambda>relayerPubkey.
     bindE (bindE (gets mint_json) (\<lambda>file.
              case file of
                None \<Rightarrow> returnOk None
              | Some mint \<Rightarrow>
                  bindE (new_PublicKey X (Some mint)) (\<lambda>pk.
                  bindE (getAccountInfo pk) (\<lambda>mintInfo.
                  returnOk (if mintInfo then Some pk else None))))) (\<lambda>cached.
     case cached of
       Some pk \<Rightarrow> returnOk pk
     | None \<Rightarrow>
         bindE (Keypair_generate X) (\<lambda>mintKeypair.
         bindE (createMint X userAuth userAuth userAuth 9 mintKeypair) (\<lambda>address.
         bindE (Transaction_add new_Transaction address) (\<lambda>tx.
         bindE (sign_and_send X relayerPubkey [userAuth, mintKeypair] tx) (\<lambda>signature.
         bindE (if signature \<noteq> ''DRY_RUN_SIGNATURE''
                then write_mint_cache mintKeypair
                else returnOk ()) (\<lambda>_.
         returnOk mintKeypair))))))))"

definition supply_total :: nat where
  "supply_total = 1000000000 * 10 ^ 9"

definition cached_mint :: "externals \<Rightarrow> pubkey io" where
  "cached_mint X =
     bindE (gets mint_json) (\<lambda>file.
       case file of
         None \<Rightarrow> throwError ''Mint not created. Run create mint first.''
       | Some mint \<Rightarrow> new_PublicKey X (Some mint))"

text \<open>
  Mint-Supply. With a holding account on the ledger the balance is asked for; without
  one the account is created by the library and the \<^verbatim>\<open>instruction\<close> property of the result
  is added to the transaction. Then \<^verbatim>\<open>mintTo\<close> is awaited and its result added.
\<close>

definition mintInitialSupply :: "externals \<Rightarrow> unit io" where
  "mintInitialSupply X =
     bindE (loadOrCreateUserAuth X) (\<lambda>userAuth.
     bindE (env_PublicKey X RELAYER_PUBKEY) (\<lambda>relayerPubkey.
     bindE (env_PublicKey X TREASURY_PUBKEY) (\<lambda>treasuryPubkey.
     bindE (cached_mint X) (\<lambda>mint.
     (let treasuryAta = findAssociatedTokenAddress X treasuryPubkey mint
      in bindE (getAccountInfo treasuryAta) (\<lambda>ataInfo.
         bindE (if ataInfo
                then bindE (getTokenAccountBalance treasuryAta) (\<lambda>amount.
                       returnOk (amount = supply_total))
                else returnOk False) (\<lambda>already.
         if already then returnOk ()
         else bindE (if \<not> ataInfo
                     then bindE (getOrCreateAssociatedTokenAccount X userAuth mint treasuryPubkey)
                            (\<lambda>account.
                          Transaction_add new_Transaction (instruction_property account))
                     else returnOk new_Transaction) (\<lambda>tx.
              bindE (mintTo X userAuth mint treasuryAta userAuth supply_total) (\<lambda>minted.
              bindE (Transaction_add tx minted) (\<lambda>tx.
              bindE (sign_and_send X relayerPubkey [userAuth] tx) (\<lambda>signature.
              returnOk ())))))))))))"

text \<open>Set-Metadata: the update shape when the metadata account exists, else the create shape.\<close>

definition setTokenMetadata :: "externals \<Rightarrow> unit io" where
  "setTokenMetadata X =
     bindE (loadOrCreateUserAuth X) (\<lambda>userAuth.
     bindE (env_PublicKey X RELAYER_PUBKEY) (\<lambda>relayerPubkey.
     bindE (cached_mint X) (\<lambda>mint.
     (let metadataPda = findMetadataPda X mint
      in bindE (getAccountInfo metadataPda) (\<lambda>metadataAccount.
         bindE (build X (if metadataAccount
                         then UpdateMetadataAccountV3 metadataPda userAuth
                         else CreateMetadataAccountV3 metadataPda mint userAuth userAuth userAuth))
           (\<lambda>built.
         bindE (Transaction_add new_Transaction built) (\<lambda>tx.
         bindE (sign_and_send X relayerPubkey [userAuth] tx) (\<lambda>signature.
         returnOk ()))))))))"

text \<open>
  Lock-Authorities. The target is resolved from the mode and the optional DAO key. The
  first loop asks for the token supply of the mint once per slot and reads the slot's
  authority off the answer; the answer is a token amount (\<^verbatim>\<open>amount\<close>, \<^verbatim>\<open>decimals\<close>,
  \<^verbatim>\<open>uiAmount\<close>, \<^verbatim>\<open>uiAmountString\<close>, of which the amount is kept), so either property is
  \<^verbatim>\<open>undefined\<close>. Where the value read
  calls for a change, \<^verbatim>\<open>setAuthority\<close> is awaited and its result added to a transaction of
  its own. The second loop signs and submits what was queued, and the closing line
  reports the target.
\<close>

definition targetAuthority :: "string \<Rightarrow> pubkey option \<Rightarrow> pubkey \<Rightarrow> pubkey option" where
  "targetAuthority authorityMode daoPubkey treasuryPubkey =
     (if authorityMode = ''dao'' \<and> daoPubkey \<noteq> None then daoPubkey
      else if authorityMode = ''treasury'' then Some treasuryPubkey
      else None)"

definition needs_change :: "pubkey option \<Rightarrow> pubkey option \<Rightarrow> bool" where
  "needs_change currentAuthority target =
     (case currentAuthority of
        None \<Rightarrow> False
      | Some cur \<Rightarrow> (case target of None \<Rightarrow> True | Some t \<Rightarrow> cur \<noteq> t))"

record token_supply =
  amount :: nat

definition getTokenSupply :: "pubkey \<Rightarrow> token_supply io" where
  "getTokenSupply mint = rpc (GetTokenSupply mint) (\<lambda>c. \<lparr>amount = token_amount c mint\<rparr>)"

definition authority_property :: "authority_type \<Rightarrow> token_supply \<Rightarrow> pubkey option" where
  "authority_property authType v = None"

fun authority_loop ::
  "externals \<Rightarrow> pubkey \<Rightarrow> pubkey \<Rightarrow> pubkey option \<Rightarrow> authority_type list \<Rightarrow> transaction list
     \<Rightarrow> transaction list io" where
  "authority_loop X userAuth mint target [] txs w = (Inr txs, w)"
| "authority_loop X userAuth mint target (authType # rest) txs w =
     (case getTokenSupply mint w of
        (Inl e, w') \<Rightarrow> (Inl e, w')
      | (Inr info, w') \<Rightarrow>
          if needs_change (authority_property authType info) target
          then (case bindE (setAuthority X userAuth mint userAuth authType target)
                       (Transaction_add new_Transaction) w' of
                  (Inl e, w'') \<Rightarrow> (Inl e, w'')
                | (Inr tx, w'') \<Rightarrow> authority_loop X userAuth mint target rest (txs @ [tx]) w'')
          else authority_loop X userAuth mint target rest txs w')"

fun send_loop :: "externals \<Rightarrow> pubkey \<Rightarrow> pubkey \<Rightarrow> transaction list \<Rightarrow> unit io" where
  "send_loop X userAuth relayerPubkey [] w = (Inr (), w)"
| "send_loop X userAuth relayerPubkey (tx # txs) w =
     (case sign_and_send X relayerPubkey [userAuth] tx w of
        (Inl e, w') \<Rightarrow> (Inl e, w')
      | (Inr signature, w') \<Rightarrow> send_loop X userAuth relayerPubkey txs w')"

definition lockAuthorities :: "externals \<Rightarrow> unit io" where
  "lockAuthorities X =
     bindE (loadOrCreateUserAuth X) (\<lambda>userAuth.
     bindE (env_PublicKey X RELAYER_PUBKEY) (\<lambda>relayerPubkey.
     bindE (env_PublicKey X TREASURY_PUBKEY) (\<lambda>treasuryPubkey.
     bindE (bindE (gets (\<lambda>w. DAO_PUBKEY (env w))) (\<lambda>dao.
              if truthy dao
              then bindE (new_PublicKey X dao) (\<lambda>pk. returnOk (Some pk))
              else returnOk None)) (\<lambda>daoPubkey.
     bindE (gets (\<lambda>w. or_else (AUTHORITY_MODE (env w)) ''null'')) (\<lambda>authorityMode.
     bindE (cached_mint X) (\<lambda>mint.
     bindE (getAccountInfo mint) (\<lambda>mintInfo.
     if \<not> mintInfo then throwError ''Mint not found.''
     else (let target = targetAuthority authorityMode daoPubkey treasuryPubkey
           in bindE (authority_loop X userAuth mint target [MintTokens, FreezeAccount] []) (\<lambda>txs.
              bindE (send_loop X userAuth relayerPubkey txs) (\<lambda>_.
              emit (AuthoritiesSet mint target)))))))))))"

text \<open>
  Rollback: after reporting what the ledger still holds, it unlinks the checkpoint; then
  it unlinks the identity file as well.
\<close>

definition unlink_mint_cache :: "unit io" where
  "unlink_mint_cache w = (Inr (), w\<lparr>mint_json := None\<rparr>)"

definition unlink_user_auth :: "unit io" where
  "unlink_user_auth w = (Inr (), w\<lparr>user_auth_json := None\<rparr>)"

definition rollback :: "externals \<Rightarrow> unit io" where
  "rollback X =
     bindE (bindE (gets mint_json) (\<lambda>file.
              case file of
                None \<Rightarrow> returnOk ()
              | Some m \<Rightarrow>
                  bindE (new_PublicKey X (Some m)) (\<lambda>mint.
                  bindE (getAccountInfo mint) (\<lambda>mintInfo.
                  bindE (getAccountInfo (findMetadataPda X mint)) (\<lambda>metadataInfo.
                  unlink_mint_cache))))) (\<lambda>_.
     bindE (gets user_auth_json) (\<lambda>file.
       case file of
         Some _ \<Rightarrow> unlink_user_auth
       | None \<Rightarrow> returnOk ()))"

section \<open>Environment check, status and the menu\<close>

definition checkEnv :: "externals \<Rightarrow> bool io" where
  "checkEnv X w =
     (if \<not> list_all truthy
            [RPC_URL (env w), RELAYER_URL (env w), RELAYER_PUBKEY (env w), TREASURY_PUBKEY (env w)]
      then (Inr False, w)
      else (case catchE
                   (bindE (env_PublicKey X RELAYER_PUBKEY) (\<lambda>_.
                    bindE (env_PublicKey X TREASURY_PUBKEY) (\<lambda>treasuryPubkey.
                    (\<lambda>w'. if TREASURY_PUBKEY (env w') \<noteq> Some OWNER_ADDRESS then (Inr False, w')
                           else bindE (if truthy (DAO_PUBKEY (env w'))
                                       then bindE (env_PublicKey X DAO_PUBKEY) (\<lambda>_. returnOk ())
                                       else returnOk ()) (\<lambda>_. returnOk True) w'))))
                   (\<lambda>e. returnOk False) w of
              (Inl e, w') \<Rightarrow> (Inl e, w')
            | (Inr False, w') \<Rightarrow> (Inr False, w')
            | (Inr True, w') \<Rightarrow>
                if or_else (AUTHORITY_MODE (env w')) [] \<notin> set [''null'', ''dao'', ''treasury'']
                then (Inr False, w')
                else catchE (bindE (rpc GetLatestBlockhash (\<lambda>c. ())) (\<lambda>_. returnOk True))
                       (\<lambda>e. returnOk False) w'))"

text \<open>
  \<^verbatim>\<open>getMint\<close> fails when the mint account is missing. The status display only reads, and
  whatever is thrown inside its \<^verbatim>\<open>try\<close> is caught: the call of \<^verbatim>\<open>getTokenAccountBalance\<close>
  is, so the metadata read after it is never made.
\<close>

definition getMint :: "pubkey \<Rightarrow> unit io" where
  "getMint mint =
     bindE (rpc (GetMint mint) (\<lambda>c. account_exists c mint)) (\<lambda>found.
       if found then returnOk () else throwError ''TokenAccountNotFoundError'')"

definition checkDeploymentStatus :: "externals \<Rightarrow> unit io" where
  "checkDeploymentStatus X =
     bindE (env_PublicKey X TREASURY_PUBKEY) (\<lambda>treasuryPubkey.
     bindE (gets mint_json) (\<lambda>file.
       case file of
         None \<Rightarrow> returnOk ()
       | Some m \<Rightarrow>
           bindE (new_PublicKey X (Some m)) (\<lambda>mint.
             catchE
               (bindE (getMint mint) (\<lambda>_.
                bindE (getTokenAccountBalance
                         (findAssociatedTokenAddress X treasuryPubkey mint)) (\<lambda>_.
                bindE (getAccountInfo (findMetadataPda X mint)) (\<lambda>_.
                returnOk ()))))
               (\<lambda>e. returnOk ()))))"

definition runAllSteps :: "externals \<Rightarrow> unit io" where
  "runAllSteps X =
     bindE (createTokenMint X) (\<lambda>_.
     bindE (mintInitialSupply X) (\<lambda>_.
     bindE (setTokenMetadata X) (\<lambda>_.
     lockAuthorities X)))"

text \<open>
  The \<^verbatim>\<open>switch\<close> of the interactive menu, for every choice but \<^verbatim>\<open>'9'\<close>. Choice
  \<^verbatim>\<open>'7'\<close> writes \<^verbatim>\<open>process.env.DRY_RUN\<close> before it runs the steps.
\<close>

definition set_dry_run :: "unit io" where
  "set_dry_run w = (Inr (), w\<lparr>env := (env w)\<lparr>DRY_RUN := Some ''true''\<rparr>\<rparr>)"

definition dispatch :: "externals \<Rightarrow> string \<Rightarrow> unit io" where
  "dispatch X choice =
     (if choice = ''1'' then runAllSteps X
      else if choice = ''2'' then bindE (createTokenMint X) (\<lambda>_. returnOk ())
      else if choice = ''3'' then mintInitialSupply X
      else if choice = ''4'' then setTokenMetadata X
      else if choice = ''5'' then lockAuthorities X
      else if choice = ''6'' then checkDeploymentStatus X
      else if choice = ''7'' then bindE set_dry_run (\<lambda>_. runAllSteps X)
      else if choice = ''8'' then rollback X
      else returnOk ())"

text \<open>
  The \<^verbatim>\<open>while (true)\<close> loop of \<^verbatim>\<open>grokCopilot\<close>, driven by the answers typed at the prompt.
  Choice \<^verbatim>\<open>'9'\<close> exits with code 0; an error thrown by an action leaves the loop and
  reaches the handler at the bottom of the script, which exits with code 1. With no
  answer left the session is still at the prompt.
\<close>

datatype session = AtPrompt | Exited nat

fun grokCopilot_loop :: "externals \<Rightarrow> string list \<Rightarrow> world \<Rightarrow> session \<times> world" where
  "grokCopilot_loop X [] w = (AtPrompt, w)"
| "grokCopilot_loop X (choice # rest) w =
     (if choice = ''9'' then (Exited 0, w)
      else (case dispatch X choice w of
              (Inl e, w') \<Rightarrow> (Exited 1, w')
            | (Inr u, w') \<Rightarrow> grokCopilot_loop X rest w'))"

section \<open>Observations on a run\<close>

text \<open>
  What a run did is read off the events it added: the operations it serialized (each
  call of the submitter serializes once, so these are the operations handed to it), the
  payloads it POSTed to the relayer, the delays it waited, the anchors it read, the
  accounts it looked up, the actions it had the token library send to the ledger, and the
  target that Lock-Authorities reported.
\<close>

fun serialized :: "event list \<Rightarrow> transaction list" where
  "serialized [] = []"
| "serialized (Serialize tx # es) = tx # serialized es"
| "serialized (e # es) = serialized es"

fun posted :: "event list \<Rightarrow> transaction list" where
  "posted [] = []"
| "posted (Post url auth tx # es) = tx # posted es"
| "posted (e # es) = posted es"

fun sleeps :: "event list \<Rightarrow> nat list" where
  "sleeps [] = []"
| "sleeps (Sleep ms # es) = ms # sleeps es"
| "sleeps (e # es) = sleeps es"

fun anchors :: "event list \<Rightarrow> nat" where
  "anchors [] = 0"
| "anchors (GetLatestBlockhash # es) = Suc (anchors es)"
| "anchors (e # es) = anchors es"

fun account_reads :: "event list \<Rightarrow> pubkey list" where
  "account_reads [] = []"
| "account_reads (GetAccountInfo a # es) = a # account_reads es"
| "account_reads (e # es) = account_reads es"

fun actions :: "event list \<Rightarrow> action list" where
  "actions [] = []"
| "actions (Action a # es) = a # actions es"
| "actions (e # es) = actions es"

fun announced :: "event list \<Rightarrow> (pubkey \<times> pubkey option) list" where
  "announced [] = []"
| "announced (AuthoritiesSet m t # es) = (m, t) # announced es"
| "announced (e # es) = announced es"

definition new_events :: "world \<Rightarrow> world \<Rightarrow> event list" where
  "new_events w w' = drop (length (trace w)) (trace w')"

text \<open>
  The events one attempt loop may add for a payload, the payload as it leaves the
  submitter, and the local state that the submitter never touches.
\<close>

fun relay_event :: "string \<Rightarrow> string option \<Rightarrow> transaction \<Rightarrow> string \<Rightarrow> nat \<Rightarrow> event \<Rightarrow> bool" where
  "relay_event url auth tx bh lvbh (Post u a t) = (u = url \<and> a = auth \<and> t = tx)"
| "relay_event url auth tx bh lvbh (ConfirmTransaction s b l) = (b = bh \<and> l = lvbh)"
| "relay_event url auth tx bh lvbh (Sleep ms) = (ms = 1000)"
| "relay_event url auth tx bh lvbh e = False"

definition finalize :: "transaction \<Rightarrow> pubkey \<Rightarrow> chain \<Rightarrow> transaction" where
  "finalize tx payer c = tx\<lparr>feePayer := Some payer, recentBlockhash := Some (blockhash c)\<rparr>"

definition same_local :: "world \<Rightarrow> world \<Rightarrow> bool" where
  "same_local w w' = (env w' = env w \<and> cache_dir w' = cache_dir w \<and> mint_json w' = mint_json w
      \<and> user_auth_json w' = user_auth_json w \<and> keys_generated w' = keys_generated w)"

section \<open>What the proofs keep track of\<close>

text \<open>
  The outcome of the attempt loop when at most \<open>k\<close> attempts remain.
\<close>

definition loop_summary ::
  "externals \<Rightarrow> string \<Rightarrow> string option \<Rightarrow> transaction \<Rightarrow> string \<Rightarrow> nat \<Rightarrow> nat
     \<Rightarrow> world \<Rightarrow> string + string \<Rightarrow> world \<Rightarrow> bool" where
  "loop_summary X url auth tx bh lvbh k w r w' =
     (same_local w w' \<and>
      (\<exists>es n. trace w' = trace w @ es \<and> list_all (relay_event url auth tx bh lvbh) es \<and>
              posted es = replicate n tx \<and> posts w' = posts w + n \<and> 1 \<le> n \<and> n \<le> k \<and>
              sleeps es = replicate (n - 1) 1000 \<and>
              (\<forall>e. r = Inl e \<longrightarrow>
                 n = k \<and> (\<exists>e3 w2. relay_attempt X url auth tx bh lvbh 3 w2 = (Inl e3, w') \<and>
                                  e = ''Relayer failed after 3 attempts: '' @ e3)) \<and>
              (\<forall>s. r = Inr s \<longrightarrow>
                 (\<exists>a w2. relay_attempt X url auth tx bh lvbh a w2 = (Inr s, w')))))"

text \<open>
  The identity a step works with, the state after the identity store has been consulted,
  and the fresh asset identity of Create-Asset.
\<close>

definition user_key :: "externals \<Rightarrow> world \<Rightarrow> pubkey" where
  "user_key X w =
     (case user_auth_json w of Some k \<Rightarrow> k | None \<Rightarrow> generate X (keys_generated w))"

definition loaded :: "externals \<Rightarrow> world \<Rightarrow> world" where
  "loaded X w =
     (case user_auth_json w of
        Some k \<Rightarrow> w
      | None \<Rightarrow> w\<lparr>keys_generated := keys_generated w + 1, cache_dir := True,
                   user_auth_json := Some (generate X (keys_generated w))\<rparr>)"

definition fresh_mint :: "externals \<Rightarrow> world \<Rightarrow> pubkey" where
  "fresh_mint X w = generate X (keys_generated (loaded X w))"

text \<open>The target that Lock-Authorities resolves in a state, for a treasury key.\<close>

definition resolved_target :: "world \<Rightarrow> pubkey \<Rightarrow> pubkey option" where
  "resolved_target w treasuryPubkey =
     targetAuthority (or_else (AUTHORITY_MODE (env w)) ''null'')
       (if truthy (DAO_PUBKEY (env w)) then DAO_PUBKEY (env w) else None) treasuryPubkey"

text \<open>
  A transaction that has not been through the submitter has no recent blockhash.
\<close>

definition unanchored :: "transaction \<Rightarrow> bool" where
  "unanchored tx = (recentBlockhash tx = None)"

text \<open>
  Two relations between the state before and after a piece of the script. \<open>offline\<close>: the
  environment and the checkpoint are what they were, events were only added, and nothing
  was serialized for or POSTed to the relayer. \<open>reading\<close>: moreover the ledger is what it
  was and no action of the token library was called. \<open>framed R m Q\<close> says that \<open>m\<close>, from any
  state, ends in a state related by \<open>R\<close>, and that a value it returns has \<open>Q\<close>; with \<open>Q\<close>
  false everywhere, \<open>m\<close> never returns a value: it throws.
\<close>

definition offline :: "world \<Rightarrow> world \<Rightarrow> bool" where
  "offline w w' =
     (env w' = env w \<and> mint_json w' = mint_json w \<and> posts w' = posts w \<and>
      take (length (trace w)) (trace w') = trace w \<and>
      posted (new_events w w') = [] \<and> serialized (new_events w w') = [])"

definition reading :: "world \<Rightarrow> world \<Rightarrow> bool" where
  "reading w w' =
     (offline w w' \<and> chain w' = chain w \<and> actions (new_events w w') = [])"

definition steady :: "(world \<Rightarrow> world \<Rightarrow> bool) \<Rightarrow> bool" where
  "steady R = ((\<forall>a. R a a) \<and> (\<forall>a b c. R a b \<longrightarrow> R b c \<longrightarrow> R a c))"

definition framed :: "(world \<Rightarrow> world \<Rightarrow> bool) \<Rightarrow> 'a io \<Rightarrow> ('a \<Rightarrow> bool) \<Rightarrow> bool" where
  "framed R m Q =
     (\<forall>w. case m w of (r, w') \<Rightarrow> R w w' \<and> (case r of Inl e \<Rightarrow> True | Inr x \<Rightarrow> Q x))"

section \<open>Example worlds\<close>

text \<open>
  A valid environment, a reachable ledger and collaborators that answer in a fixed way:
  a relayer that accepts, one that rejects, a confirmation wait that expires once, and
  one that always expires; a token library whose actions resolve (a created mint then has
  an account on the ledger) and metadata builders that return. The worlds are a fresh
  checkout, a deployment whose asset exists but has no supply yet, the same with the
  checkpoint lost, with the supply minted, with both authorities disabled, with the DAO
  mode and no DAO key, a checkpoint that points at nothing, a fresh checkout in dry-run
  mode, and the same with the ledger out of reach.
\<close>

definition ex_env :: process_env where
  "ex_env = \<lparr>RPC_URL = Some ''https://rpc'', RELAYER_URL = Some ''https://relay'',
             RELAYER_PUBKEY = Some ''Relayer'', TREASURY_PUBKEY = Some OWNER_ADDRESS,
             DAO_PUBKEY = None, AUTHORITY_MODE = Some ''null'', DRY_RUN = Some ''false'',
             RELAYER_API_KEY = None\<rparr>"

definition ex_chain :: chain where
  "ex_chain = \<lparr>rpc_error = None, blockhash = ''H1'', lastValidBlockHeight = 100,
               account_exists = (\<lambda>a. False), token_amount = (\<lambda>a. 0),
               mintAuthority = (\<lambda>a. None), freezeAuthority = (\<lambda>a. None)\<rparr>"

definition ex_world :: world where
  "ex_world = \<lparr>env = ex_env, cache_dir = False, mint_json = None, user_auth_json = None,
               chain = ex_chain, keys_generated = 0, posts = 0, trace = []\<rparr>"

definition ex_X :: externals where
  "ex_X = \<lparr>is_pubkey = (\<lambda>s. s \<noteq> []),
           generate = (\<lambda>n. if n = 0 then ''Key0'' else ''Key1''),
           findProgramAddressSync = (\<lambda>seeds program. take 4 program @ last seeds),
           fetch = (\<lambda>n url auth tx c.
                     (FetchResolves \<lparr>success = True, txSignature = ''Sig'', error = None\<rparr>, c)),
           confirm = (\<lambda>n signature c. (ConfirmResolves None, c)),
           library = (\<lambda>a c.
                       (Inr ''LibSig'',
                        case a of
                          CreateMint payer mintAuth freezeAuth d k \<Rightarrow>
                            c\<lparr>account_exists := (\<lambda>x. x = k \<or> account_exists c x)\<rparr>
                        | GetOrCreateAssociatedTokenAccount payer mint owner \<Rightarrow> c
                        | MintTo payer mint dest auth n \<Rightarrow> c
                        | SetAuthority payer acc cur t new \<Rightarrow> c)),
           build_metadata = (\<lambda>c. None)\<rparr>"

definition ex_X_rejecting :: externals where
  "ex_X_rejecting = ex_X\<lparr>fetch := (\<lambda>n url auth tx c.
      (FetchResolves \<lparr>success = False, txSignature = [], error = Some ''LedgerRejected''\<rparr>, c))\<rparr>"

definition ex_X_expiring :: externals where
  "ex_X_expiring = ex_X\<lparr>confirm := (\<lambda>n signature c.
      (if n = 0 then ConfirmRejects ''block height exceeded'' else ConfirmResolves None, c))\<rparr>"

definition ex_X_unconfirmed :: externals where
  "ex_X_unconfirmed = ex_X\<lparr>confirm := (\<lambda>n signature c.
      (ConfirmRejects ''block height exceeded'', c))\<rparr>"

definition ex_tx :: transaction where
  "ex_tx = \<lparr>instructions = [Instruction TOKEN_2022_PROGRAM_ID ''mintTo''], signers = [''User''],
             feePayer = None, recentBlockhash = None\<rparr>"

definition ex_chain_deployed :: chain where
  "ex_chain_deployed = ex_chain\<lparr>account_exists := (\<lambda>a. a = ''Mint1''),
      mintAuthority := (\<lambda>a. if a = ''Mint1'' then Some ''User'' else None),
      freezeAuthority := (\<lambda>a. if a = ''Mint1'' then Some ''User'' else None)\<rparr>"

definition ex_world_created :: world where
  "ex_world_created = ex_world\<lparr>cache_dir := True, mint_json := Some ''Mint1'',
      user_auth_json := Some ''User'', chain := ex_chain_deployed\<rparr>"

definition ex_world_orphan :: world where
  "ex_world_orphan = ex_world_created\<lparr>mint_json := None\<rparr>"

definition ex_world_minted :: world where
  "ex_world_minted = ex_world_created\<lparr>chain := ex_chain_deployed\<lparr>
      account_exists := (\<lambda>a. a = ''Mint1'' \<or> a = ''ATokMint1''),
      token_amount := (\<lambda>a. if a = ''ATokMint1'' then 10 ^ 18 else 0)\<rparr>\<rparr>"


definition ex_world_dao :: world where
  "ex_world_dao = ex_world_created\<lparr>env := ex_env\<lparr>AUTHORITY_MODE := Some ''dao''\<rparr>\<rparr>"

definition ex_world_stale :: world where
  "ex_world_stale = ex_world\<lparr>cache_dir := True, mint_json := Some ''Mint1'',
      user_auth_json := Some ''User''\<rparr>"

definition ex_world_dry :: world where
  "ex_world_dry = ex_world\<lparr>env := ex_env\<lparr>DRY_RUN := Some ''true''\<rparr>\<rparr>"

definition ex_world_down :: world where
  "ex_world_down = ex_world_dry\<lparr>chain := ex_chain\<lparr>rpc_error := Some ''fetch failed''\<rparr>\<rparr>"

section \<open>The attempt loop\<close>

lemma serialized_append [simp]: "serialized (xs @ ys) = serialized xs @ serialized ys"
  by (induction xs rule: serialized.induct) auto

lemma posted_append [simp]: "posted (xs @ ys) = posted xs @ posted ys"
  by (induction xs rule: posted.induct) auto

lemma sleeps_append [simp]: "sleeps (xs @ ys) = sleeps xs @ sleeps ys"
  by (induction xs rule: sleeps.induct) auto

lemma relay_event_serialized: "list_all (relay_event url auth tx bh lvbh) es \<Longrightarrow> serialized es = []"
  by (induction es rule: serialized.induct) auto

lemma same_local_refl [simp]: "same_local w w"
  by (simp add: same_local_def)

lemma same_local_trans: "same_local a b \<Longrightarrow> same_local b c \<Longrightarrow> same_local a c"
  by (simp add: same_local_def)

lemma same_local_trace [simp]: "same_local (w\<lparr>trace := t\<rparr>) w' = same_local w w'"
  "same_local w (w'\<lparr>trace := t\<rparr>) = same_local w w'"
  by (simp_all add: same_local_def)

lemma relay_attempt_effect:
  assumes "relay_attempt X url auth tx bh lvbh attempt w = (r, w')"
  shows "same_local w w' \<and> posts w' = posts w + 1 \<and>
         (\<exists>es. trace w' = trace w @ Post url auth tx # es \<and>
               list_all (relay_event url auth tx bh lvbh) es \<and> posted es = [] \<and> sleeps es = [])"
proof -
  obtain res c1 where f: "fetch X (posts w) url auth tx (chain w) = (res, c1)"
    by (cases "fetch X (posts w) url auth tx (chain w)")
  let ?w1 = "w\<lparr>chain := c1, posts := posts w + 1, trace := trace w @ [Post url auth tx]\<rparr>"
  show ?thesis
  proof (cases res)
    case (FetchRejects msg)
    with assms f have "w' = ?w1"
      by (simp add: relay_attempt_def)
    then show ?thesis by (simp add: same_local_def)
  next
    case (FetchResolves j)
    show ?thesis
    proof (cases "success j")
      case False
      with assms f FetchResolves have "w' = ?w1"
        by (simp add: relay_attempt_def)
      then show ?thesis by (simp add: same_local_def)
    next
      case True
      obtain cr c2 where c: "confirm X (posts w) (txSignature j) c1 = (cr, c2)"
        by (cases "confirm X (posts w) (txSignature j) c1")
      from assms f FetchResolves True c
      have "w' = ?w1\<lparr>chain := c2, trace := trace ?w1 @ [ConfirmTransaction (txSignature j) bh lvbh]\<rparr>"
        by (cases cr) (simp_all add: relay_attempt_def)
      then show ?thesis by (simp add: same_local_def)
    qed
  qed
qed

lemma relay_loop_ok:
  "attempt \<le> 3 \<Longrightarrow> relay_attempt X url auth tx bh lvbh attempt w = (Inr s, w1) \<Longrightarrow>
   relay_loop X url auth tx bh lvbh attempt w = (Inr s, w1)"
  by (subst relay_loop.simps) simp

lemma relay_loop_last:
  "relay_attempt X url auth tx bh lvbh 3 w = (Inl e, w1) \<Longrightarrow>
   relay_loop X url auth tx bh lvbh 3 w = (Inl (''Relayer failed after 3 attempts: '' @ e), w1)"
  by (subst relay_loop.simps) simp

lemma relay_loop_retry:
  "attempt < 3 \<Longrightarrow> relay_attempt X url auth tx bh lvbh attempt w = (Inl e, w1) \<Longrightarrow>
   relay_loop X url auth tx bh lvbh attempt w =
     relay_loop X url auth tx bh lvbh (attempt + 1) (w1\<lparr>trace := trace w1 @ [Sleep 1000]\<rparr>)"
  by (subst relay_loop.simps) simp

lemma loop_summary_one:
  assumes a: "relay_attempt X url auth tx bh lvbh attempt w = (r1, w')"
    and k: "1 \<le> k"
    and r: "\<And>e. r = Inl e \<Longrightarrow> k = 1 \<and> attempt = 3 \<and> (\<exists>e3. r1 = Inl e3 \<and> e = ''Relayer failed after 3 attempts: '' @ e3)"
    and ok: "\<And>s. r = Inr s \<Longrightarrow> r1 = Inr s"
  shows "loop_summary X url auth tx bh lvbh k w r w'"
proof -
  from relay_attempt_effect [OF a] obtain es where
    f: "same_local w w'" and p: "posts w' = posts w + 1" and
    t: "trace w' = trace w @ Post url auth tx # es" and
    e: "list_all (relay_event url auth tx bh lvbh) es" and pe: "posted es = []" and se: "sleeps es = []"
    by blast
  have x: "\<forall>e. r = Inl e \<longrightarrow>
           1 = k \<and> (\<exists>e3 w2. relay_attempt X url auth tx bh lvbh 3 w2 = (Inl e3, w') \<and>
                            e = ''Relayer failed after 3 attempts: '' @ e3)"
  proof (intro allI impI)
    fix e assume "r = Inl e"
    from r [OF this] obtain e3 where
      "k = 1" "attempt = 3" "r1 = Inl e3" "e = ''Relayer failed after 3 attempts: '' @ e3"
      by blast
    with a show "1 = k \<and> (\<exists>e3 w2. relay_attempt X url auth tx bh lvbh 3 w2 = (Inl e3, w') \<and>
                            e = ''Relayer failed after 3 attempts: '' @ e3)"
      by blast
  qed
  have y: "\<forall>s. r = Inr s \<longrightarrow> (\<exists>a w2. relay_attempt X url auth tx bh lvbh a w2 = (Inr s, w'))"
    using ok a by blast
  have 1: "trace w' = trace w @ (Post url auth tx # es)" using t by simp
  have 2: "list_all (relay_event url auth tx bh lvbh) (Post url auth tx # es)" using e by simp
  have 3: "posted (Post url auth tx # es) = replicate 1 tx" using pe by simp
  have 4: "sleeps (Post url auth tx # es) = replicate (1 - 1) 1000" using se by simp
  have 5: "(1::nat) \<le> 1" by simp
  from f 1 2 3 4 5 p k x y show ?thesis
    unfolding loop_summary_def by blast
qed

lemma loop_summary_step:
  assumes a: "relay_attempt X url auth tx bh lvbh attempt w = (Inl e1, w1)"
    and s: "loop_summary X url auth tx bh lvbh k (w1\<lparr>trace := trace w1 @ [Sleep 1000]\<rparr>) r w'"
  shows "loop_summary X url auth tx bh lvbh (Suc k) w r w'"
proof -
  from relay_attempt_effect [OF a] obtain es1 where
    f1: "same_local w w1" and p1: "posts w1 = posts w + 1" and
    t1: "trace w1 = trace w @ Post url auth tx # es1" and
    e1: "list_all (relay_event url auth tx bh lvbh) es1" and pe1: "posted es1 = []" and se1: "sleeps es1 = []"
    by blast
  from s obtain es2 n where
    f2: "same_local w1 w'" and t2: "trace w' = trace w1 @ Sleep 1000 # es2" and
    e2: "list_all (relay_event url auth tx bh lvbh) es2" and
    pe2: "posted es2 = replicate n tx" and p2: "posts w' = posts w1 + n" and
    n: "1 \<le> n" "n \<le> k" and se2: "sleeps es2 = replicate (n - 1) 1000" and
    x2: "\<forall>e. r = Inl e \<longrightarrow>
                 n = k \<and> (\<exists>e3 w2. relay_attempt X url auth tx bh lvbh 3 w2 = (Inl e3, w') \<and>
                                  e = ''Relayer failed after 3 attempts: '' @ e3)" and
    y2: "\<forall>s. r = Inr s \<longrightarrow> (\<exists>a w2. relay_attempt X url auth tx bh lvbh a w2 = (Inr s, w'))"
    unfolding loop_summary_def by auto
  let ?es = "Post url auth tx # es1 @ Sleep 1000 # es2"
  have 1: "trace w' = trace w @ ?es" using t1 t2 by simp
  have 2: "list_all (relay_event url auth tx bh lvbh) ?es" using e1 e2 by simp
  have 3: "posted ?es = replicate (Suc n) tx" using pe1 pe2 by simp
  have 4: "posts w' = posts w + Suc n" using p1 p2 by simp
  have 5: "sleeps ?es = replicate (Suc n - 1) 1000"
    using se1 se2 n by (cases n) simp_all
  have 6: "\<forall>e. r = Inl e \<longrightarrow>
                 Suc n = Suc k \<and> (\<exists>e3 w2. relay_attempt X url auth tx bh lvbh 3 w2 = (Inl e3, w') \<and>
                                  e = ''Relayer failed after 3 attempts: '' @ e3)"
    using x2 by simp
  have 7: "1 \<le> Suc n" "Suc n \<le> Suc k" using n by simp_all
  have "same_local w w'" using f1 f2 by (rule same_local_trans)
  with 1 2 3 4 5 6 7 y2 show ?thesis
    unfolding loop_summary_def by blast
qed

lemma relay_loop_3:
  assumes "relay_loop X url auth tx bh lvbh 3 w = (r, w')"
  shows "loop_summary X url auth tx bh lvbh 1 w r w'"
proof -
  obtain r1 w1 where a: "relay_attempt X url auth tx bh lvbh 3 w = (r1, w1)"
    by (cases "relay_attempt X url auth tx bh lvbh 3 w")
  show ?thesis
  proof (cases r1)
    case (Inl e)
    with a relay_loop_last [of X url auth tx bh lvbh w e w1] assms
    have "r = Inl (''Relayer failed after 3 attempts: '' @ e)" "w' = w1" by simp_all
    with a Inl show ?thesis by (intro loop_summary_one [where attempt = 3 and ?r1.0 = r1]) simp_all
  next
    case (Inr s)
    with a relay_loop_ok [of 3 X url auth tx bh lvbh w s w1] assms
    have "r = Inr s" "w' = w1" by simp_all
    with a Inr show ?thesis by (intro loop_summary_one [where attempt = 3 and ?r1.0 = r1]) simp_all
  qed
qed

lemma relay_loop_before:
  assumes lt: "attempt < 3"
    and nxt: "\<And>w r w'. relay_loop X url auth tx bh lvbh (attempt + 1) w = (r, w') \<Longrightarrow>
                loop_summary X url auth tx bh lvbh k w r w'"
    and k: "1 \<le> k"
    and run: "relay_loop X url auth tx bh lvbh attempt w = (r, w')"
  shows "loop_summary X url auth tx bh lvbh (Suc k) w r w'"
proof -
  obtain r1 w1 where a: "relay_attempt X url auth tx bh lvbh attempt w = (r1, w1)"
    by (cases "relay_attempt X url auth tx bh lvbh attempt w")
  show ?thesis
  proof (cases r1)
    case (Inl e)
    with a relay_loop_retry [OF lt, of X url auth tx bh lvbh w e w1] run
    have "relay_loop X url auth tx bh lvbh (attempt + 1) (w1\<lparr>trace := trace w1 @ [Sleep 1000]\<rparr>) = (r, w')"
      by simp
    from nxt [OF this] a Inl show ?thesis
      by (intro loop_summary_step [where attempt = attempt and ?e1.0 = e and ?w1.0 = w1]) simp_all
  next
    case (Inr s)
    with a relay_loop_ok [of attempt X url auth tx bh lvbh w s w1] run lt
    have "r = Inr s" "w' = w1" by simp_all
    with a Inr show ?thesis by (intro loop_summary_one [where attempt = attempt and ?r1.0 = r1]) simp_all
  qed
qed

lemma relay_loop_1:
  assumes "relay_loop X url auth tx bh lvbh 1 w = (r, w')"
  shows "loop_summary X url auth tx bh lvbh 3 w r w'"
proof -
  have 2: "loop_summary X url auth tx bh lvbh (Suc 1) w r w'"
    if "relay_loop X url auth tx bh lvbh 2 w = (r, w')" for w r w'
    using relay_loop_before [of 2 X url auth tx bh lvbh 1 w r w'] relay_loop_3 [of X url auth tx bh lvbh] that
    by simp
  have "loop_summary X url auth tx bh lvbh (Suc 2) w r w'"
    using relay_loop_before [of 1 X url auth tx bh lvbh 2 w r w'] 2 assms
    by (simp add: numeral_2_eq_2)
  then show ?thesis by (simp add: numeral_3_eq_3)
qed

lemma sendViaRelayer_dry:
  assumes "DRY_RUN (env w) = Some ''true''"
  shows "sendViaRelayer X pk url tx key w =
     (if is_pubkey X pk
      then (case rpc_error (chain w) of
              Some msg \<Rightarrow> (Inl msg, w\<lparr>trace := trace w @ [GetLatestBlockhash]\<rparr>)
            | None \<Rightarrow> (Inr ''DRY_RUN_SIGNATURE'',
                       w\<lparr>trace := trace w @ [GetLatestBlockhash, Serialize (finalize tx pk (chain w))]\<rparr>))
      else (Inl ''Invalid public key input'', w))"
  using assms
  by (simp add: sendViaRelayer_def bindE_def gets_def new_PublicKey_def returnOk_def throwError_def
        rpc_def emit_def finalize_def Let_def split: option.split)

lemma sendViaRelayer_live:
  assumes "DRY_RUN (env w) \<noteq> Some ''true''" and "is_pubkey X pk" and "rpc_error (chain w) = None"
  shows "sendViaRelayer X pk url tx key w =
     relay_loop X url (bearer key) (finalize tx pk (chain w)) (blockhash (chain w))
       (lastValidBlockHeight (chain w)) 1
       (w\<lparr>trace := trace w @ [GetLatestBlockhash, Serialize (finalize tx pk (chain w))]\<rparr>)"
  using assms
  by (simp add: sendViaRelayer_def bindE_def gets_def new_PublicKey_def returnOk_def throwError_def
        rpc_def emit_def finalize_def Let_def del: One_nat_def)

lemma sendViaRelayer_early:
  assumes "\<not> is_pubkey X pk \<or> rpc_error (chain w) \<noteq> None"
  shows "\<exists>e. sendViaRelayer X pk url tx key w =
     (Inl e, w\<lparr>trace := trace w @ (if is_pubkey X pk then [GetLatestBlockhash] else [])\<rparr>)"
  using assms
  by (auto simp add: sendViaRelayer_def bindE_def gets_def new_PublicKey_def returnOk_def throwError_def
        rpc_def emit_def Let_def)

lemma anchors_append [simp]: "anchors (xs @ ys) = anchors xs + anchors ys"
  by (induction xs rule: anchors.induct) auto

lemma relay_event_anchors: "list_all (relay_event url auth tx bh lvbh) es \<Longrightarrow> anchors es = 0"
  by (induction es rule: anchors.induct) auto

lemma new_events_append: "trace w' = trace w @ es \<Longrightarrow> new_events w w' = es"
  by (simp add: new_events_def)

lemma sendViaRelayer_summary:
  assumes live: "DRY_RUN (env w) \<noteq> Some ''true''" and valid: "is_pubkey X pk"
    and up: "rpc_error (chain w) = None"
    and run: "sendViaRelayer X pk url tx key w = (r, w')"
  shows "\<exists>es. new_events w w' = GetLatestBlockhash # Serialize (finalize tx pk (chain w)) # es \<and>
           loop_summary X url (bearer key) (finalize tx pk (chain w)) (blockhash (chain w))
             (lastValidBlockHeight (chain w)) 3
             (w\<lparr>trace := trace w @ [GetLatestBlockhash, Serialize (finalize tx pk (chain w))]\<rparr>) r w' \<and>
           trace w' = trace w @ GetLatestBlockhash # Serialize (finalize tx pk (chain w)) # es \<and>
           list_all (relay_event url (bearer key) (finalize tx pk (chain w)) (blockhash (chain w))
             (lastValidBlockHeight (chain w))) es"
proof -
  let ?w0 = "w\<lparr>trace := trace w @ [GetLatestBlockhash, Serialize (finalize tx pk (chain w))]\<rparr>"
  from sendViaRelayer_live [OF live valid up, of url tx key] run
  have "relay_loop X url (bearer key) (finalize tx pk (chain w)) (blockhash (chain w))
          (lastValidBlockHeight (chain w)) 1 ?w0 = (r, w')"
    by simp
  from relay_loop_1 [OF this]
  have s: "loop_summary X url (bearer key) (finalize tx pk (chain w)) (blockhash (chain w))
             (lastValidBlockHeight (chain w)) 3 ?w0 r w'" .
  then obtain es where t: "trace w' = trace ?w0 @ es"
    and e: "list_all (relay_event url (bearer key) (finalize tx pk (chain w)) (blockhash (chain w))
             (lastValidBlockHeight (chain w))) es"
    unfolding loop_summary_def by blast
  from t have t': "trace w' = trace w @ GetLatestBlockhash # Serialize (finalize tx pk (chain w)) # es"
    by simp
  from new_events_append [OF t'] s t' e show ?thesis by blast
qed

lemma relay_attempt_refused:
  assumes "fst (fetch X (posts w) url auth tx (chain w)) =
             FetchResolves \<lparr>success = False, txSignature = sg, error = Some msg\<rparr>"
    and "msg \<noteq> []"
  shows "fst (relay_attempt X url auth tx bh lvbh a w) = Inl msg"
  using assms
  by (cases "fetch X (posts w) url auth tx (chain w)") (simp add: relay_attempt_def or_else_def)

lemma relay_attempt_unconfirmed:
  assumes "fst (fetch X (posts w) url auth tx (chain w)) =
             FetchResolves \<lparr>success = True, txSignature = sg, error = er\<rparr>"
    and "fst (confirm X (posts w) sg (snd (fetch X (posts w) url auth tx (chain w)))) = ConfirmRejects msg"
  shows "fst (relay_attempt X url auth tx bh lvbh a w) = Inl msg"
  using assms
  by (cases "fetch X (posts w) url auth tx (chain w)";
      cases "confirm X (posts w) sg (snd (fetch X (posts w) url auth tx (chain w)))")
     (simp add: relay_attempt_def)

section \<open>The retry policy of the submitter\<close>

text \<open>
  Claim C1, as amended. The submitter does not tell failures apart: whatever an attempt
  throws (a network failure, a relayer reply that does not report success, a failed
  confirmation wait) is caught and retried. A live submission makes between one and three
  POSTs of the same payload, with one 1000 ms delay before each retry; an error leaves
  the call only after the third attempt, as \<^verbatim>\<open>Relayer failed after 3 attempts: \<close> followed
  by the message of that attempt. In particular a relayer that answers every POST with
  a rejection \<open>msg\<close> is asked three times before the call fails with \<open>msg\<close>.
\<close>

theorem sendViaRelayer_retries_every_failure:
  assumes live: "DRY_RUN (env w) \<noteq> Some ''true''" and valid: "is_pubkey X pk"
    and up: "rpc_error (chain w) = None"
    and run: "sendViaRelayer X pk url tx key w = (r, w')"
  shows "(\<exists>n. 1 \<le> n \<and> n \<le> 3 \<and> posts w' = posts w + n \<and>
              posted (new_events w w') = replicate n (finalize tx pk (chain w)) \<and>
              sleeps (new_events w w') = replicate (n - 1) 1000 \<and>
              (\<forall>e. r = Inl e \<longrightarrow>
                 n = 3 \<and>
                 (\<exists>e3 w2. relay_attempt X url (bearer key) (finalize tx pk (chain w))
                              (blockhash (chain w)) (lastValidBlockHeight (chain w)) 3 w2 = (Inl e3, w') \<and>
                           e = ''Relayer failed after 3 attempts: '' @ e3))) \<and>
         ((\<forall>i u a t c. fst (fetch X i u a t c) =
                          FetchResolves \<lparr>success = False, txSignature = sg, error = Some msg\<rparr>) \<and>
          msg \<noteq> [] \<longrightarrow>
            r = Inl (''Relayer failed after 3 attempts: '' @ msg))"
proof -
  let ?tx = "finalize tx pk (chain w)"
  let ?bh = "blockhash (chain w)" and ?lv = "lastValidBlockHeight (chain w)"
  from sendViaRelayer_summary [OF live valid up run] obtain es where
    ne: "new_events w w' = GetLatestBlockhash # Serialize ?tx # es" and
    s: "loop_summary X url (bearer key) ?tx ?bh ?lv 3
          (w\<lparr>trace := trace w @ [GetLatestBlockhash, Serialize ?tx]\<rparr>) r w'"
    by blast
  from s obtain es' n where
    t: "trace w' = trace w @ GetLatestBlockhash # Serialize ?tx # es'" and
    pe: "posted es' = replicate n ?tx" and p: "posts w' = posts w + n" and
    n: "1 \<le> n" "n \<le> 3" and sl: "sleeps es' = replicate (n - 1) 1000" and
    x: "\<forall>e. r = Inl e \<longrightarrow>
          n = 3 \<and> (\<exists>e3 w2. relay_attempt X url (bearer key) ?tx ?bh ?lv 3 w2 = (Inl e3, w') \<and>
                           e = ''Relayer failed after 3 attempts: '' @ e3)" and
    y: "\<forall>s. r = Inr s \<longrightarrow> (\<exists>a w2. relay_attempt X url (bearer key) ?tx ?bh ?lv a w2 = (Inr s, w'))"
    unfolding loop_summary_def by auto
  from new_events_append [OF t] have ne': "new_events w w' = GetLatestBlockhash # Serialize ?tx # es'" .
  have first: "\<exists>n. 1 \<le> n \<and> n \<le> 3 \<and> posts w' = posts w + n \<and>
              posted (new_events w w') = replicate n ?tx \<and>
              sleeps (new_events w w') = replicate (n - 1) 1000 \<and>
              (\<forall>e. r = Inl e \<longrightarrow>
                 n = 3 \<and>
                 (\<exists>e3 w2. relay_attempt X url (bearer key) ?tx ?bh ?lv 3 w2 = (Inl e3, w') \<and>
                           e = ''Relayer failed after 3 attempts: '' @ e3))"
    using n p pe sl x by (intro exI [of _ n]) (simp add: ne')
  have second: "r = Inl (''Relayer failed after 3 attempts: '' @ msg)"
    if all: "\<forall>i u a t c. fst (fetch X i u a t c) =
                          FetchResolves \<lparr>success = False, txSignature = sg, error = Some msg\<rparr>"
      and msg: "msg \<noteq> []"
  proof -
    have refused: "fst (relay_attempt X url (bearer key) ?tx ?bh ?lv a w2) = Inl msg" for a w2
      using all msg by (intro relay_attempt_refused [where sg = sg]) simp_all
    show ?thesis
    proof (cases r)
      case (Inr s)
      with y obtain a w2 where "relay_attempt X url (bearer key) ?tx ?bh ?lv a w2 = (Inr s, w')"
        by blast
      with refused [of a w2] show ?thesis by simp
    next
      case (Inl e)
      with x obtain e3 w2 where
        "relay_attempt X url (bearer key) ?tx ?bh ?lv 3 w2 = (Inl e3, w')"
        "e = ''Relayer failed after 3 attempts: '' @ e3"
        by blast
      with refused [of 3 w2] Inl show ?thesis by simp
    qed
  qed
  from first second show ?thesis by blast
qed

theorem sendViaRelayer_retries_every_failure_witness:
  "(\<exists>n. 1 \<le> n \<and> n \<le> 3 \<and>
        posts (snd (sendViaRelayer ex_X_rejecting ''Relayer'' ''https://relay'' ex_tx None ex_world))
          = posts ex_world + n \<and>
        posted (new_events ex_world
                  (snd (sendViaRelayer ex_X_rejecting ''Relayer'' ''https://relay'' ex_tx None ex_world)))
          = replicate n (finalize ex_tx ''Relayer'' (chain ex_world)) \<and>
        sleeps (new_events ex_world
                  (snd (sendViaRelayer ex_X_rejecting ''Relayer'' ''https://relay'' ex_tx None ex_world)))
          = replicate (n - 1) 1000) \<and>
   fst (sendViaRelayer ex_X_rejecting ''Relayer'' ''https://relay'' ex_tx None ex_world)
     = Inl ''Relayer failed after 3 attempts: LedgerRejected''"
proof -
  have live: "DRY_RUN (env ex_world) \<noteq> Some ''true''"
    by (simp add: ex_world_def ex_env_def)
  have valid: "is_pubkey ex_X_rejecting ''Relayer''"
    by (simp add: ex_X_rejecting_def ex_X_def)
  have up: "rpc_error (chain ex_world) = None"
    by (simp add: ex_world_def ex_chain_def)
  have run: "sendViaRelayer ex_X_rejecting ''Relayer'' ''https://relay'' ex_tx None ex_world =
      (fst (sendViaRelayer ex_X_rejecting ''Relayer'' ''https://relay'' ex_tx None ex_world),
       snd (sendViaRelayer ex_X_rejecting ''Relayer'' ''https://relay'' ex_tx None ex_world))"
    by simp
  have all: "\<forall>i u a t c. fst (fetch ex_X_rejecting i u a t c) =
      FetchResolves \<lparr>success = False, txSignature = [], error = Some ''LedgerRejected''\<rparr>"
    by (simp add: ex_X_rejecting_def ex_X_def)
  from sendViaRelayer_retries_every_failure [OF live valid up run, of "[]" "''LedgerRejected''"] all
  show ?thesis by auto
qed

text \<open>
  The claim as written (no retry when the reply is a deterministic rejection) fails: the
  rejected payload is POSTed three times.
\<close>

theorem sendViaRelayer_retries_ledger_rejection:
  "fst (fetch ex_X_rejecting 0 ''https://relay'' None
          (finalize ex_tx ''Relayer'' (chain ex_world)) (chain ex_world))
     = FetchResolves \<lparr>success = False, txSignature = [], error = Some ''LedgerRejected''\<rparr> \<and>
   fst (sendViaRelayer ex_X_rejecting ''Relayer'' ''https://relay'' ex_tx None ex_world) =
     Inl ''Relayer failed after 3 attempts: LedgerRejected'' \<and>
   posted (trace (snd (sendViaRelayer ex_X_rejecting ''Relayer'' ''https://relay''
                         ex_tx None ex_world))) =
     [finalize ex_tx ''Relayer'' (chain ex_world),
      finalize ex_tx ''Relayer'' (chain ex_world),
      finalize ex_tx ''Relayer'' (chain ex_world)]"
  by (simp add: sendViaRelayer_def ex_X_rejecting_def ex_X_def ex_world_def ex_env_def ex_chain_def
        ex_tx_def new_Transaction_def bindE_def gets_def new_PublicKey_def returnOk_def throwError_def
        rpc_def emit_def relay_attempt_def or_else_def truthy_def bearer_def finalize_def Let_def
        relay_loop.simps)

lemma new_events_upd [simp]: "new_events w (w\<lparr>trace := trace w @ es\<rparr>) = es"
  by (simp add: new_events_def)

lemma new_events_same [simp]: "new_events w w = []"
  by (simp add: new_events_def)

lemma sendViaRelayer_one_anchor:
  assumes run: "sendViaRelayer X pk url tx key w = (r, w')"
  shows "anchors (new_events w w') \<le> 1 \<and>
         (\<exists>n. posted (new_events w w') = replicate n (finalize tx pk (chain w)))"
proof (cases "is_pubkey X pk \<and> rpc_error (chain w) = None")
  case False
  then have "\<not> is_pubkey X pk \<or> rpc_error (chain w) \<noteq> None" by simp
  from sendViaRelayer_early [OF this, of url tx key] run
  have "w' = w\<lparr>trace := trace w @ (if is_pubkey X pk then [GetLatestBlockhash] else [])\<rparr>"
    by auto
  then show ?thesis by (auto intro: exI [of _ 0])
next
  case ok: True
  show ?thesis
  proof (cases "DRY_RUN (env w) = Some ''true''")
    case True
    from sendViaRelayer_dry [OF True, of X pk url tx key] run ok
    have "w' = w\<lparr>trace := trace w @ [GetLatestBlockhash, Serialize (finalize tx pk (chain w))]\<rparr>"
      by simp
    then show ?thesis by (auto intro: exI [of _ 0])
  next
    case False
    from ok have v: "is_pubkey X pk" and u: "rpc_error (chain w) = None" by simp_all
    from sendViaRelayer_summary [OF False v u run] obtain es where
      ne: "new_events w w' = GetLatestBlockhash # Serialize (finalize tx pk (chain w)) # es" and
      s: "loop_summary X url (bearer key) (finalize tx pk (chain w)) (blockhash (chain w))
             (lastValidBlockHeight (chain w)) 3
             (w\<lparr>trace := trace w @ [GetLatestBlockhash, Serialize (finalize tx pk (chain w))]\<rparr>) r w'" and
      t: "trace w' = trace w @ GetLatestBlockhash # Serialize (finalize tx pk (chain w)) # es" and
      e: "list_all (relay_event url (bearer key) (finalize tx pk (chain w)) (blockhash (chain w))
             (lastValidBlockHeight (chain w))) es"
      by blast
    from s obtain es' n where
      t': "trace w' = trace w @ GetLatestBlockhash # Serialize (finalize tx pk (chain w)) # es'" and
      pe: "posted es' = replicate n (finalize tx pk (chain w))"
      unfolding loop_summary_def by auto
    from t t' have "es' = es" by simp
    with pe ne relay_event_anchors [OF e] show ?thesis by auto
  qed
qed

section \<open>Confirmation failure inside the submitter\<close>

text \<open>
  Claim C6, as amended. One call of the submitter reads the recency anchor at most once,
  and every POST of the call carries the payload serialized with that anchor: no new
  anchor is resolved for a re-dispatch. A failed confirmation wait, however, is not
  terminal at once. It is thrown inside the same \<^verbatim>\<open>try\<close> as the POST, so the payload is
  re-dispatched after the delay, and the failure leaves the call only from the third
  attempt: when the relayer accepts every POST and every confirmation wait fails with
  \<open>msg\<close>, three POSTs are made before the call fails with \<open>msg\<close>.
\<close>

theorem sendViaRelayer_confirmation_failure_retried:
  assumes run: "sendViaRelayer X pk url tx key w = (r, w')"
  shows "anchors (new_events w w') \<le> 1 \<and>
         (\<forall>t \<in> set (posted (new_events w w')). t = finalize tx pk (chain w)) \<and>
         (DRY_RUN (env w) \<noteq> Some ''true'' \<and> is_pubkey X pk \<and> rpc_error (chain w) = None \<and>
          (\<forall>i u a t c. fst (fetch X i u a t c) =
                          FetchResolves \<lparr>success = True, txSignature = sg, error = er\<rparr>) \<and>
          (\<forall>i s c. fst (confirm X i s c) = ConfirmRejects msg) \<longrightarrow>
            r = Inl (''Relayer failed after 3 attempts: '' @ msg) \<and>
            length (posted (new_events w w')) = 3)"
proof -
  let ?tx = "finalize tx pk (chain w)"
  let ?bh = "blockhash (chain w)" and ?lv = "lastValidBlockHeight (chain w)"
  from sendViaRelayer_one_anchor [OF run] obtain n where
    a: "anchors (new_events w w') \<le> 1" and p: "posted (new_events w w') = replicate n ?tx"
    by blast
  from p have b: "\<forall>t \<in> set (posted (new_events w w')). t = ?tx" by simp
  have c: "r = Inl (''Relayer failed after 3 attempts: '' @ msg) \<and>
           length (posted (new_events w w')) = 3"
    if live: "DRY_RUN (env w) \<noteq> Some ''true''" and valid: "is_pubkey X pk"
      and up: "rpc_error (chain w) = None"
      and acc: "\<forall>i u a t c. fst (fetch X i u a t c) =
                          FetchResolves \<lparr>success = True, txSignature = sg, error = er\<rparr>"
      and rej: "\<forall>i s c. fst (confirm X i s c) = ConfirmRejects msg"
  proof -
    have failed: "fst (relay_attempt X url (bearer key) ?tx ?bh ?lv a w2) = Inl msg" for a w2
      using acc rej by (intro relay_attempt_unconfirmed [where sg = sg and er = er]) simp_all
    from sendViaRelayer_summary [OF live valid up run] obtain es where
      ne: "new_events w w' = GetLatestBlockhash # Serialize ?tx # es" and
      s: "loop_summary X url (bearer key) ?tx ?bh ?lv 3
            (w\<lparr>trace := trace w @ [GetLatestBlockhash, Serialize ?tx]\<rparr>) r w'"
      by blast
    from s obtain es' k where
      t: "trace w' = trace w @ GetLatestBlockhash # Serialize ?tx # es'" and
      pe: "posted es' = replicate k ?tx" and
      x: "\<forall>e. r = Inl e \<longrightarrow>
            k = 3 \<and> (\<exists>e3 w2. relay_attempt X url (bearer key) ?tx ?bh ?lv 3 w2 = (Inl e3, w') \<and>
                             e = ''Relayer failed after 3 attempts: '' @ e3)" and
      y: "\<forall>s. r = Inr s \<longrightarrow> (\<exists>a w2. relay_attempt X url (bearer key) ?tx ?bh ?lv a w2 = (Inr s, w'))"
      unfolding loop_summary_def by auto
    from new_events_append [OF t] have ne': "new_events w w' = GetLatestBlockhash # Serialize ?tx # es'" .
    show ?thesis
    proof (cases r)
      case (Inr s)
      with y obtain a w2 where "relay_attempt X url (bearer key) ?tx ?bh ?lv a w2 = (Inr s, w')"
        by blast
      with failed [of a w2] show ?thesis by simp
    next
      case (Inl e)
      with x obtain e3 w2 where k: "k = 3" and
        "relay_attempt X url (bearer key) ?tx ?bh ?lv 3 w2 = (Inl e3, w')"
        "e = ''Relayer failed after 3 attempts: '' @ e3"
        by blast
      with failed [of 3 w2] Inl have "r = Inl (''Relayer failed after 3 attempts: '' @ msg)" by simp
      moreover from ne' pe k have "length (posted (new_events w w')) = 3" by simp
      ultimately show ?thesis by blast
    qed
  qed
  from a b c show ?thesis by blast
qed

theorem sendViaRelayer_confirmation_failure_retried_witness:
  "anchors (new_events ex_world
              (snd (sendViaRelayer ex_X_unconfirmed ''Relayer'' ''https://relay'' ex_tx None ex_world))) \<le> 1 \<and>
   list_all (\<lambda>t. t = finalize ex_tx ''Relayer'' (chain ex_world))
     (posted (new_events ex_world
              (snd (sendViaRelayer ex_X_unconfirmed ''Relayer'' ''https://relay'' ex_tx None ex_world)))) \<and>
   fst (sendViaRelayer ex_X_unconfirmed ''Relayer'' ''https://relay'' ex_tx None ex_world)
     = Inl ''Relayer failed after 3 attempts: block height exceeded'' \<and>
   length (posted (new_events ex_world
              (snd (sendViaRelayer ex_X_unconfirmed ''Relayer'' ''https://relay'' ex_tx None ex_world)))) = 3"
proof -
  have live: "DRY_RUN (env ex_world) \<noteq> Some ''true''"
    by (simp add: ex_world_def ex_env_def)
  have valid: "is_pubkey ex_X_unconfirmed ''Relayer''"
    by (simp add: ex_X_unconfirmed_def ex_X_def)
  have up: "rpc_error (chain ex_world) = None"
    by (simp add: ex_world_def ex_chain_def)
  have run: "sendViaRelayer ex_X_unconfirmed ''Relayer'' ''https://relay'' ex_tx None ex_world =
      (fst (sendViaRelayer ex_X_unconfirmed ''Relayer'' ''https://relay'' ex_tx None ex_world),
       snd (sendViaRelayer ex_X_unconfirmed ''Relayer'' ''https://relay'' ex_tx None ex_world))"
    by simp
  have acc: "\<forall>i u a t c. fst (fetch ex_X_unconfirmed i u a t c) =
      FetchResolves \<lparr>success = True, txSignature = ''Sig'', error = None\<rparr>"
    by (simp add: ex_X_unconfirmed_def ex_X_def)
  have rej: "\<forall>i s c. fst (confirm ex_X_unconfirmed i s c) = ConfirmRejects ''block height exceeded''"
    by (simp add: ex_X_unconfirmed_def ex_X_def)
  from sendViaRelayer_confirmation_failure_retried
         [OF run, of "''Sig''" None "''block height exceeded''"] live valid up acc rej
  show ?thesis by (auto simp: list_all_iff)
qed

text \<open>
  The claim as written (a confirmation failure is never retried) fails: the first
  confirmation wait expires, the submitter POSTs again and returns the signature.
\<close>

theorem sendViaRelayer_redispatches_after_expiry:
  "fst (confirm ex_X_expiring 0 ''Sig'' (chain ex_world)) = ConfirmRejects ''block height exceeded'' \<and>
   fst (sendViaRelayer ex_X_expiring ''Relayer'' ''https://relay'' ex_tx None ex_world) = Inr ''Sig'' \<and>
   trace (snd (sendViaRelayer ex_X_expiring ''Relayer'' ''https://relay'' ex_tx None ex_world)) =
     [GetLatestBlockhash,
      Serialize (finalize ex_tx ''Relayer'' (chain ex_world)),
      Post ''https://relay'' None (finalize ex_tx ''Relayer'' (chain ex_world)),
      ConfirmTransaction ''Sig'' ''H1'' 100,
      Sleep 1000,
      Post ''https://relay'' None (finalize ex_tx ''Relayer'' (chain ex_world)),
      ConfirmTransaction ''Sig'' ''H1'' 100]"
  by (simp add: sendViaRelayer_def ex_X_expiring_def ex_X_def ex_world_def ex_env_def ex_chain_def
        ex_tx_def new_Transaction_def bindE_def gets_def new_PublicKey_def returnOk_def throwError_def
        rpc_def emit_def relay_attempt_def or_else_def truthy_def bearer_def finalize_def Let_def
        relay_loop.simps)

section \<open>Rollback\<close>

lemma rollback_effect:
  assumes "mint_json w = None \<or>
           (\<exists>m. mint_json w = Some m \<and> is_pubkey X m \<and> rpc_error (chain w) = None)"
  shows "rollback X w =
           (Inr (), w\<lparr>mint_json := None, user_auth_json := None,
                      trace := trace w @ (case mint_json w of
                                            None \<Rightarrow> []
                                          | Some m \<Rightarrow> [GetAccountInfo m, GetAccountInfo (findMetadataPda X m)])\<rparr>)"
  using assms
  by (auto simp: rollback_def bindE_def gets_def new_PublicKey_def returnOk_def throwError_def
        getAccountInfo_def rpc_def unlink_mint_cache_def unlink_user_auth_def split: option.splits)

text \<open>
  Claim C5, as amended. Once the two ledger reads of its report have succeeded (or with
  no checkpoint to report on), rollback returns with both files gone: the checkpoint
  \<^verbatim>\<open>mint.json\<close> and the identity \<^verbatim>\<open>user_auth.json\<close>. Nothing else changes locally, and the
  only traffic is the two reads: nothing is submitted, so no on-chain effect is undone.
\<close>

theorem rollback_deletes_checkpoint_and_identity:
  assumes "mint_json w = None \<or>
           (\<exists>m. mint_json w = Some m \<and> is_pubkey X m \<and> rpc_error (chain w) = None)"
    and "rollback X w = (r, w')"
  shows "r = Inr () \<and> mint_json w' = None \<and> user_auth_json w' = None \<and>
         env w' = env w \<and> cache_dir w' = cache_dir w \<and> chain w' = chain w \<and>
         keys_generated w' = keys_generated w \<and> posts w' = posts w \<and>
         new_events w w' = (case mint_json w of
                              None \<Rightarrow> []
                            | Some m \<Rightarrow> [GetAccountInfo m, GetAccountInfo (findMetadataPda X m)])"
  using rollback_effect [OF assms(1)] assms(2) by (auto simp: new_events_def)

theorem rollback_deletes_checkpoint_and_identity_witness:
  "fst (rollback ex_X ex_world_created) = Inr () \<and>
   mint_json (snd (rollback ex_X ex_world_created)) = None \<and>
   user_auth_json (snd (rollback ex_X ex_world_created)) = None \<and>
   cache_dir (snd (rollback ex_X ex_world_created)) = True \<and>
   posts (snd (rollback ex_X ex_world_created)) = 0 \<and>
   new_events ex_world_created (snd (rollback ex_X ex_world_created)) =
     [GetAccountInfo ''Mint1'', GetAccountInfo ''metaMint1'']"
proof -
  have h: "mint_json ex_world_created = None \<or>
           (\<exists>m. mint_json ex_world_created = Some m \<and> is_pubkey ex_X m \<and>
                rpc_error (chain ex_world_created) = None)"
    by (simp add: ex_world_created_def ex_world_def ex_X_def ex_chain_deployed_def ex_chain_def)
  have run: "rollback ex_X ex_world_created =
               (fst (rollback ex_X ex_world_created), snd (rollback ex_X ex_world_created))"
    by simp
  have m: "mint_json ex_world_created = Some ''Mint1''" "cache_dir ex_world_created = True"
    "posts ex_world_created = 0"
    by (simp_all add: ex_world_created_def ex_world_def)
  have p: "findMetadataPda ex_X ''Mint1'' = ''metaMint1''"
    by (simp add: findMetadataPda_def ex_X_def)
  from rollback_deletes_checkpoint_and_identity [OF h run] m p
  show ?thesis by simp
qed

text \<open>
  The claim as written (the identity file is left unchanged) fails: a rollback that
  completes deletes an identity that was there.
\<close>

theorem rollback_deletes_identity:
  "user_auth_json ex_world_created = Some ''User'' \<and>
   fst (rollback ex_X ex_world_created) = Inr () \<and>
   user_auth_json (snd (rollback ex_X ex_world_created)) = None"
  by (simp add: rollback_def bindE_def gets_def new_PublicKey_def returnOk_def throwError_def
        getAccountInfo_def rpc_def unlink_mint_cache_def unlink_user_auth_def ex_world_created_def ex_world_def ex_X_def
        ex_chain_deployed_def ex_chain_def)

section \<open>The first lines of a step\<close>

lemma account_reads_append [simp]:
  "account_reads (xs @ ys) = account_reads xs @ account_reads ys"
  by (induction xs rule: account_reads.induct) auto

lemma relay_event_account_reads:
  "list_all (relay_event url auth tx bh lvbh) es \<Longrightarrow> account_reads es = []"
  by (induction es rule: account_reads.induct) auto

lemma loadOrCreateUserAuth_eq: "loadOrCreateUserAuth X w = (Inr (user_key X w), loaded X w)"
  by (simp add: loadOrCreateUserAuth_def user_key_def loaded_def Let_def split: option.split)

lemma loaded_simps [simp]:
  "env (loaded X w) = env w" "chain (loaded X w) = chain w" "mint_json (loaded X w) = mint_json w"
  "posts (loaded X w) = posts w" "trace (loaded X w) = trace w"
  by (simp_all add: loaded_def split: option.split)

lemma loaded_identity [simp]: "user_auth_json (loaded X w) = Some (user_key X w)"
  by (simp add: loaded_def user_key_def split: option.split)

lemma new_events_loaded [simp]: "new_events (loaded X w) w' = new_events w w'"
  by (simp add: new_events_def)

lemma env_PublicKey_ok:
  "var (env w) = Some k \<Longrightarrow> is_pubkey X k \<Longrightarrow> env_PublicKey X var w = (Inr k, w)"
  by (simp add: env_PublicKey_def bindE_def gets_def new_PublicKey_def returnOk_def)

lemma getAccountInfo_ok:
  "rpc_error (chain w) = None \<Longrightarrow>
   getAccountInfo a w = (Inr (account_exists (chain w) a), w\<lparr>trace := trace w @ [GetAccountInfo a]\<rparr>)"
  by (simp add: getAccountInfo_def rpc_def)

lemma cached_mint_ok:
  "mint_json w = Some m \<Longrightarrow> is_pubkey X m \<Longrightarrow> cached_mint X w = (Inr m, w)"
  by (simp add: cached_mint_def bindE_def gets_def new_PublicKey_def returnOk_def)

lemma cached_mint_absent:
  "mint_json w = None \<Longrightarrow> cached_mint X w = (Inl ''Mint not created. Run create mint first.'', w)"
  by (simp add: cached_mint_def bindE_def gets_def throwError_def)

lemma bindE_Inr: "m w = (Inr x, w1) \<Longrightarrow> bindE m f w = f x w1"
  by (simp add: bindE_def gets_def)

lemma bindE_Inl: "m w = (Inl e, w1) \<Longrightarrow> bindE m f w = (Inl e, w1)"
  by (simp add: bindE_def gets_def)

section \<open>Frames\<close>

lemma actions_append [simp]: "actions (xs @ ys) = actions xs @ actions ys"
  by (induction xs rule: actions.induct) auto

lemma announced_append [simp]: "announced (xs @ ys) = announced xs @ announced ys"
  by (induction xs rule: announced.induct) auto

lemma offline_iff:
  "offline w w' \<longleftrightarrow>
     env w' = env w \<and> mint_json w' = mint_json w \<and> posts w' = posts w \<and>
     (\<exists>es. trace w' = trace w @ es \<and> posted es = [] \<and> serialized es = [])"
proof
  assume o: "offline w w'"
  then have "trace w' = trace w @ new_events w w'"
    unfolding offline_def new_events_def by (metis append_take_drop_id)
  with o show "env w' = env w \<and> mint_json w' = mint_json w \<and> posts w' = posts w \<and>
     (\<exists>es. trace w' = trace w @ es \<and> posted es = [] \<and> serialized es = [])"
    unfolding offline_def by blast
next
  assume "env w' = env w \<and> mint_json w' = mint_json w \<and> posts w' = posts w \<and>
     (\<exists>es. trace w' = trace w @ es \<and> posted es = [] \<and> serialized es = [])"
  then show "offline w w'"
    by (auto simp: offline_def new_events_def)
qed

lemma steady_offline: "steady offline"
  unfolding steady_def
proof (intro conjI allI impI)
  fix a show "offline a a" by (simp add: offline_iff)
next
  fix a b c assume "offline a b" "offline b c"
  then obtain es fs where "trace b = trace a @ es" "posted es = []" "serialized es = []"
    "trace c = trace b @ fs" "posted fs = []" "serialized fs = []"
    and loc: "env c = env a" "mint_json c = mint_json a" "posts c = posts a"
    unfolding offline_iff by auto
  then have "trace c = trace a @ (es @ fs)" "posted (es @ fs) = []" "serialized (es @ fs) = []"
    by simp_all
  with loc show "offline a c" unfolding offline_iff by blast
qed

lemma reading_iff:
  "reading w w' \<longleftrightarrow>
     env w' = env w \<and> mint_json w' = mint_json w \<and> posts w' = posts w \<and> chain w' = chain w \<and>
     (\<exists>es. trace w' = trace w @ es \<and> posted es = [] \<and> serialized es = [] \<and> actions es = [])"
proof
  assume "reading w w'"
  then have o: "offline w w'" and c: "chain w' = chain w" and a: "actions (new_events w w') = []"
    by (simp_all add: reading_def)
  from o obtain es where e: "trace w' = trace w @ es" "posted es = []" "serialized es = []"
    unfolding offline_iff by blast
  with a have "actions es = []" by (simp add: new_events_def)
  with o c e show "env w' = env w \<and> mint_json w' = mint_json w \<and> posts w' = posts w \<and> chain w' = chain w \<and>
     (\<exists>es. trace w' = trace w @ es \<and> posted es = [] \<and> serialized es = [] \<and> actions es = [])"
    unfolding offline_iff by blast
next
  assume "env w' = env w \<and> mint_json w' = mint_json w \<and> posts w' = posts w \<and> chain w' = chain w \<and>
     (\<exists>es. trace w' = trace w @ es \<and> posted es = [] \<and> serialized es = [] \<and> actions es = [])"
  then show "reading w w'"
    by (auto simp: reading_def offline_iff new_events_def)
qed

lemma steady_reading: "steady reading"
  unfolding steady_def
proof (intro conjI allI impI)
  fix a show "reading a a" by (simp add: reading_iff)
next
  fix a b c assume "reading a b" "reading b c"
  then obtain es fs where "trace b = trace a @ es" "posted es = []" "serialized es = []" "actions es = []"
    "trace c = trace b @ fs" "posted fs = []" "serialized fs = []" "actions fs = []"
    and loc: "env c = env a" "mint_json c = mint_json a" "posts c = posts a" "chain c = chain a"
    unfolding reading_iff by auto
  then have "trace c = trace a @ (es @ fs)" "posted (es @ fs) = []" "serialized (es @ fs) = []"
    "actions (es @ fs) = []"
    by simp_all
  with loc show "reading a c" unfolding reading_iff by blast
qed

lemma framedI:
  assumes "\<And>(w::world) r w'. m w = (r, w') \<Longrightarrow> R w w' \<and> (\<forall>x. r = Inr x \<longrightarrow> Q x)"
  shows "framed R m Q"
  unfolding framed_def
proof
  fix w :: world
  obtain r w' where e: "m w = (r, w')" by (cases "m w")
  from assms [OF e] show "case m w of (r, w') \<Rightarrow> R w w' \<and> (case r of Inl e \<Rightarrow> True | Inr x \<Rightarrow> Q x)"
    using e by (cases r) simp_all
qed

lemma framedD:
  assumes "framed R m Q" and "m w = (r, w')"
  shows "R w w' \<and> (\<forall>x. r = Inr x \<longrightarrow> Q x)"
proof -
  from assms(1) have "case m w of (r, w') \<Rightarrow> R w w' \<and> (case r of Inl e \<Rightarrow> True | Inr x \<Rightarrow> Q x)"
    by (simp add: framed_def)
  with assms(2) show ?thesis by (cases r) simp_all
qed

lemma framed_returnOk: "steady R \<Longrightarrow> Q x \<Longrightarrow> framed R (returnOk x) Q"
  by (rule framedI) (auto simp add: returnOk_def steady_def)

lemma framed_throwError: "steady R \<Longrightarrow> framed R (throwError e) Q"
  by (rule framedI) (auto simp add: throwError_def steady_def)

lemma framed_gets: "steady R \<Longrightarrow> framed R (gets f) (\<lambda>_. True)"
  by (rule framedI) (auto simp add: gets_def steady_def)

lemma framed_bindE:
  assumes st: "steady R" and m: "framed R m P" and g: "\<And>x. P x \<Longrightarrow> framed R (g x) Q"
  shows "framed R (bindE m g) Q"
proof (rule framedI)
  fix w r w'
  assume e: "bindE m g w = (r, w')"
  obtain r1 w1 where m1: "m w = (r1, w1)" by (cases "m w")
  from framedD [OF m m1] have R1: "R w w1" and P1: "\<forall>x. r1 = Inr x \<longrightarrow> P x"
    by simp_all
  show "R w w' \<and> (\<forall>x. r = Inr x \<longrightarrow> Q x)"
  proof (cases r1)
    case (Inl err)
    with e m1 have "r = Inl err" "w' = w1" by (simp_all add: bindE_def)
    with R1 show ?thesis by simp
  next
    case (Inr x)
    with e m1 have g1: "g x w1 = (r, w')" by (simp add: bindE_def)
    from P1 Inr have "P x" by simp
    from framedD [OF g [OF this] g1] have "R w1 w'" and q: "\<forall>x. r = Inr x \<longrightarrow> Q x"
      by simp_all
    with R1 st have "R w w'" unfolding steady_def by blast
    with q show ?thesis by simp
  qed
qed

lemma framed_then:
  assumes "steady R" and "framed R m (\<lambda>_. True)" and "\<And>x. framed R (g x) Q"
  shows "framed R (bindE m g) Q"
  using assms(1,2) by (rule framed_bindE) (rule assms(3))

lemma framed_stuck:
  assumes "steady R" and "framed R m (\<lambda>_. False)"
  shows "framed R (bindE m g) Q"
  using assms by (rule framed_bindE) simp

lemma framed_catchE:
  assumes st: "steady R" and m: "framed R m Q" and h: "\<And>e. framed R (h e) Q"
  shows "framed R (catchE m h) Q"
proof (rule framedI)
  fix w r w'
  assume e: "catchE m h w = (r, w')"
  obtain r1 w1 where m1: "m w = (r1, w1)" by (cases "m w")
  from framedD [OF m m1] have R1: "R w w1" and Q1: "\<forall>x. r1 = Inr x \<longrightarrow> Q x"
    by simp_all
  show "R w w' \<and> (\<forall>x. r = Inr x \<longrightarrow> Q x)"
  proof (cases r1)
    case (Inr x)
    with e m1 have "r = Inr x" "w' = w1" by (simp_all add: catchE_def)
    with R1 Q1 Inr show ?thesis by simp
  next
    case (Inl err)
    with e m1 have h1: "h err w1 = (r, w')" by (simp add: catchE_def)
    from framedD [OF h h1] have "R w1 w'" and q: "\<forall>x. r = Inr x \<longrightarrow> Q x"
      by simp_all
    with R1 st have "R w w'" unfolding steady_def by blast
    with q show ?thesis by simp
  qed
qed

lemma framed_weaken:
  assumes "framed R m Q" and "\<And>x. Q x \<Longrightarrow> Q' x"
  shows "framed R m Q'"
proof (rule framedI)
  fix w r w'
  assume "m w = (r, w')"
  from framedD [OF assms(1) this] assms(2) show "R w w' \<and> (\<forall>x. r = Inr x \<longrightarrow> Q' x)"
    by simp
qed

lemma framed_any:
  assumes "framed R m Q"
  shows "framed R m (\<lambda>_. True)"
  using assms by (rule framed_weaken) simp

lemma framed_if:
  "framed R a Q \<Longrightarrow> framed R b Q \<Longrightarrow> framed R (if c then a else b) Q"
  by simp

lemma framed_case_option:
  "framed R a Q \<Longrightarrow> (\<And>v. framed R (b v) Q) \<Longrightarrow>
   framed R (case x of None \<Rightarrow> a | Some v \<Rightarrow> b v) Q"
  by (cases x) simp_all

lemma framed_rpc:
  assumes "\<forall>u a t. e \<noteq> Post u a t" and "\<forall>t. e \<noteq> Serialize t" and "\<forall>a. e \<noteq> Action a"
  shows "framed reading (rpc e f) (\<lambda>_. True)"
proof (rule framedI)
  fix w :: world and r w'
  have p: "posted [e] = []" "serialized [e] = []" "actions [e] = []" using assms by (cases e; simp)+
  assume "rpc e f w = (r, w')"
  then have "w' = w\<lparr>trace := trace w @ [e]\<rparr>"
    by (cases "rpc_error (chain w)") (auto simp: rpc_def)
  with p show "reading w w' \<and> (\<forall>x. r = Inr x \<longrightarrow> True)"
    by (simp add: reading_iff)
qed

lemma framed_new_PublicKey: "framed reading (new_PublicKey X v) (\<lambda>_. True)"
  unfolding new_PublicKey_def
  by (intro framed_case_option framed_if framed_returnOk framed_throwError steady_reading) simp_all

lemma framed_env_PublicKey: "framed reading (env_PublicKey X var) (\<lambda>_. True)"
  unfolding env_PublicKey_def
  by (intro framed_then [OF steady_reading] framed_gets framed_new_PublicKey steady_reading)

lemma framed_getAccountInfo: "framed reading (getAccountInfo a) (\<lambda>_. True)"
  unfolding getAccountInfo_def by (rule framed_rpc) simp_all

lemma framed_getTokenSupply: "framed reading (getTokenSupply a) (\<lambda>_. True)"
  unfolding getTokenSupply_def by (rule framed_rpc) simp_all

lemma framed_getMint: "framed reading (getMint a) (\<lambda>_. True)"
  unfolding getMint_def
  by (intro framed_then [OF steady_reading] framed_rpc framed_if framed_returnOk framed_throwError
        steady_reading) simp_all

lemma framed_cached_mint: "framed reading (cached_mint X) (\<lambda>_. True)"
  unfolding cached_mint_def
  by (intro framed_then [OF steady_reading] framed_gets framed_case_option framed_new_PublicKey
        framed_throwError steady_reading)

lemma framed_loadOrCreateUserAuth: "framed reading (loadOrCreateUserAuth X) (\<lambda>_. True)"
  by (rule framedI) (simp add: loadOrCreateUserAuth_eq reading_iff)

lemma framed_Keypair_generate: "framed reading (Keypair_generate X) (\<lambda>_. True)"
  by (rule framedI) (auto simp add: Keypair_generate_def reading_iff)

lemma framed_emit:
  assumes "\<forall>u a t. e \<noteq> Post u a t" and "\<forall>t. e \<noteq> Serialize t" and "\<forall>a. e \<noteq> Action a"
  shows "framed reading (emit e) (\<lambda>_. True)"
proof (rule framedI)
  fix w r w'
  have p: "posted [e] = []" "serialized [e] = []" "actions [e] = []" using assms by (cases e; simp)+
  assume "emit e w = (r, w')"
  then have "w' = w\<lparr>trace := trace w @ [e]\<rparr>" by (auto simp: emit_def)
  with p show "reading w w' \<and> (\<forall>x. r = Inr x \<longrightarrow> True)"
    by (simp add: reading_iff)
qed

lemma offline_of_reading: "framed reading m Q \<Longrightarrow> framed offline m Q"
proof (rule framedI)
  fix w r w'
  assume "framed reading m Q" "m w = (r, w')"
  from framedD [OF this] show "offline w w' \<and> (\<forall>x. r = Inr x \<longrightarrow> Q x)"
    by (simp add: reading_def)
qed

lemma framed_act: "framed offline (act X a) (\<lambda>_. True)"
proof (rule framedI)
  fix w r w'
  assume "act X a w = (r, w')"
  then have "w' = w\<lparr>chain := snd (library X a (chain w)), trace := trace w @ [Action a]\<rparr>"
    by (auto simp: act_def split: prod.splits)
  then show "offline w w' \<and> (\<forall>x. r = Inr x \<longrightarrow> True)"
    by (simp add: offline_iff)
qed

section \<open>The steps and the relayer\<close>

lemma unanchored_new: "unanchored new_Transaction"
  by (simp add: unanchored_def new_Transaction_def)

lemma framed_Transaction_add:
  assumes "steady R" and "unanchored tx"
  shows "framed R (Transaction_add tx v) unanchored"
  using assms
  by (cases v)
     (simp_all add: Transaction_add_def framed_throwError framed_returnOk unanchored_def)

lemma Transaction_add_undefined:
  "Transaction_add tx Undefined w =
     (Inl ''TypeError: Cannot use in operator to search for instructions in undefined'', w)"
  by (simp add: Transaction_add_def throwError_def)

lemma Transaction_add_signature:
  "Transaction_add tx (Signature s) w =
     (Inl ''TypeError: Cannot use in operator to search for instructions in a string'', w)"
  by (simp add: Transaction_add_def throwError_def)

lemma framed_add_undefined: "steady R \<Longrightarrow> framed R (Transaction_add tx Undefined) Q"
  by (simp add: Transaction_add_def framed_throwError)

lemma framed_add_signature: "steady R \<Longrightarrow> framed R (Transaction_add tx (Signature s)) Q"
  by (simp add: Transaction_add_def framed_throwError)

lemma framed_getTokenAccountBalance: "steady R \<Longrightarrow> framed R (getTokenAccountBalance a) Q"
  by (simp add: getTokenAccountBalance_def framed_throwError)

lemma sign_and_send_unanchored:
  assumes "unanchored tx"
  shows "sign_and_send X rp ss tx w =
           (Inl (if ss = [] then ''No signers'' else ''Transaction recentBlockhash required''), w)"
  using assms
  by (simp add: sign_and_send_def partialSign_def bindE_def throwError_def unanchored_def)

lemma framed_sign_and_send:
  assumes "steady R" and "unanchored tx"
  shows "framed R (sign_and_send X rp ss tx) Q"
  using assms(1)
  by (intro framedI) (auto simp add: sign_and_send_unanchored [OF assms(2)] steady_def)

lemma framed_add_sign_send:
  assumes "steady R" and "unanchored tx"
  shows "framed R (bindE (Transaction_add tx v) (\<lambda>tx'. bindE (sign_and_send X rp ss tx') g)) Q"
proof (rule framed_bindE [OF assms(1) framed_Transaction_add [OF assms]])
  fix tx' assume "unanchored tx'"
  from framed_sign_and_send [OF assms(1) this]
  show "framed R (bindE (sign_and_send X rp ss tx') g) Q"
    by (rule framed_stuck [OF assms(1)])
qed

lemma framed_createMint: "framed offline (createMint X p ma fa d k) (\<lambda>_. True)"
  unfolding createMint_def
  by (intro framed_then [OF steady_offline] framed_act framed_returnOk steady_offline) simp

lemma framed_getOrCreateAssociatedTokenAccount:
  "framed offline (getOrCreateAssociatedTokenAccount X p m owner) (\<lambda>_. True)"
  unfolding getOrCreateAssociatedTokenAccount_def
  by (intro framed_then [OF steady_offline] framed_act framed_returnOk steady_offline) simp

lemma framed_mintTo: "framed offline (mintTo X p m d a n) (\<lambda>v. \<exists>s. v = Signature s)"
  unfolding mintTo_def
  by (intro framed_then [OF steady_offline] framed_act framed_returnOk steady_offline) simp

lemma framed_setAuthority:
  "framed offline (setAuthority X p m c a t) (\<lambda>v. \<exists>s. v = Signature s)"
  unfolding setAuthority_def
  by (intro framed_then [OF steady_offline] framed_act framed_returnOk steady_offline) simp

lemma framed_build: "framed reading (build X c) (\<lambda>_. True)"
  unfolding build_def
  by (intro framed_case_option framed_throwError framed_returnOk steady_reading) simp

lemmas reading_rules =
  framed_then [OF steady_reading] framed_catchE [OF steady_reading] framed_if framed_case_option
  framed_returnOk [OF steady_reading] framed_throwError [OF steady_reading]
  framed_gets [OF steady_reading]
  framed_new_PublicKey framed_env_PublicKey framed_getAccountInfo framed_getTokenSupply
  framed_getMint framed_cached_mint framed_loadOrCreateUserAuth framed_Keypair_generate
  framed_build

lemmas offline_rules =
  framed_then [OF steady_offline] framed_catchE [OF steady_offline] framed_if framed_case_option
  framed_returnOk [OF steady_offline] framed_throwError [OF steady_offline]
  framed_gets [OF steady_offline]
  framed_new_PublicKey [THEN offline_of_reading] framed_env_PublicKey [THEN offline_of_reading]
  framed_getAccountInfo [THEN offline_of_reading] framed_getTokenSupply [THEN offline_of_reading]
  framed_getMint [THEN offline_of_reading] framed_cached_mint [THEN offline_of_reading]
  framed_loadOrCreateUserAuth [THEN offline_of_reading]
  framed_Keypair_generate [THEN offline_of_reading] framed_build [THEN offline_of_reading]
  framed_createMint framed_getOrCreateAssociatedTokenAccount

text \<open>
  Create-Asset returns only through the early \<^verbatim>\<open>return\<close>; past it, the transaction it
  builds has no blockhash when it is signed. Either way the relayer is not reached and the
  checkpoint is not written.
\<close>

lemma framed_createTokenMint: "framed offline (createTokenMint X) (\<lambda>_. True)"
  unfolding createTokenMint_def
  by (intro framed_add_sign_send [OF steady_offline unanchored_new] offline_rules) simp_all

text \<open>Mint-Supply never returns: each of its two branches throws.\<close>

lemma framed_mintInitialSupply: "framed offline (mintInitialSupply X) (\<lambda>_. False)"
proof -
  have check: "framed offline
       (if ataInfo
        then bindE (getTokenAccountBalance ata) (\<lambda>amount. returnOk (amount = supply_total))
        else returnOk False) (\<lambda>already. \<not> already)" for ataInfo ata
    by (intro framed_if framed_stuck [OF steady_offline]
          framed_getTokenAccountBalance [OF steady_offline] framed_returnOk [OF steady_offline])
       simp
  have build: "framed offline
       (if \<not> ataInfo
        then bindE (getOrCreateAssociatedTokenAccount X u m tp)
               (\<lambda>account. Transaction_add new_Transaction (instruction_property account))
        else returnOk new_Transaction) (\<lambda>_. True)" for ataInfo u m tp
    unfolding instruction_property_def
    by (intro framed_if framed_then [OF steady_offline] framed_getOrCreateAssociatedTokenAccount
          framed_add_undefined [OF steady_offline] framed_returnOk [OF steady_offline]) simp
  have mint: "framed offline
       (bindE (mintTo X u m ata u n) (\<lambda>minted. bindE (Transaction_add tx minted) g)) (\<lambda>_. False)"
    for u m ata n tx and g :: "transaction \<Rightarrow> unit io"
  proof (rule framed_bindE [OF steady_offline framed_mintTo])
    fix v assume "\<exists>s. v = Signature s"
    then obtain s where "v = Signature s" ..
    then show "framed offline (bindE (Transaction_add tx v) g) (\<lambda>_. False)"
      by (simp add: framed_stuck [OF steady_offline framed_add_signature [OF steady_offline]])
  qed
  have rest: "framed offline
       (bindE (if ataInfo
               then bindE (getTokenAccountBalance ata) (\<lambda>amount. returnOk (amount = supply_total))
               else returnOk False) (\<lambda>already.
          if already then returnOk ()
          else bindE (if \<not> ataInfo
                      then bindE (getOrCreateAssociatedTokenAccount X u m tp)
                             (\<lambda>account. Transaction_add new_Transaction (instruction_property account))
                      else returnOk new_Transaction) (\<lambda>tx.
               bindE (mintTo X u m ata u n) (\<lambda>minted. bindE (Transaction_add tx minted) (g tx)))))
       (\<lambda>_. False)"
    for ataInfo ata u m tp n and g :: "transaction \<Rightarrow> transaction \<Rightarrow> unit io"
  proof (rule framed_bindE [OF steady_offline check])
    fix already :: bool assume "\<not> already"
    then show "framed offline
        (if already then returnOk ()
         else bindE (if \<not> ataInfo
                     then bindE (getOrCreateAssociatedTokenAccount X u m tp)
                            (\<lambda>account. Transaction_add new_Transaction (instruction_property account))
                     else returnOk new_Transaction) (\<lambda>tx.
              bindE (mintTo X u m ata u n) (\<lambda>minted. bindE (Transaction_add tx minted) (g tx))))
        (\<lambda>_. False)"
      by (simp add: framed_then [OF steady_offline build mint])
  qed
  show ?thesis
    unfolding mintInitialSupply_def Let_def
    by (intro rest offline_rules)
qed

text \<open>Set-Metadata never returns either: its transaction has no blockhash when it is signed.\<close>

lemma framed_setTokenMetadata: "framed offline (setTokenMetadata X) (\<lambda>_. False)"
  unfolding setTokenMetadata_def Let_def
  by (intro framed_add_sign_send [OF steady_offline unanchored_new] offline_rules)

section \<open>Lock-Authorities\<close>

text \<open>
  The value the first loop compares with the target is read off a token amount, so it is
  never set and no slot ever calls for a change: the loop is two reads of the token
  supply, and it hands on the list of transactions it was given.
\<close>

lemma no_change: "\<not> needs_change (authority_property authType info) target"
  by (simp add: authority_property_def needs_change_def)

lemma authority_loop_Cons:
  "authority_loop X u m target (a # rest) txs =
     bindE (getTokenSupply m) (\<lambda>info. authority_loop X u m target rest txs)"
  by (rule ext) (simp add: no_change bindE_def split: prod.split sum.split)

lemma authority_loop_Nil: "authority_loop X u m target [] txs = returnOk txs"
  by (rule ext) (simp add: returnOk_def)

lemma framed_authority_loop:
  "framed reading (authority_loop X u m target slots txs) (\<lambda>queue. queue = txs)"
proof (induction slots)
  case Nil
  show ?case
    unfolding authority_loop_Nil by (rule framed_returnOk [OF steady_reading]) simp
next
  case (Cons a rest)
  show ?case
    unfolding authority_loop_Cons
    by (rule framed_then [OF steady_reading framed_getTokenSupply]) (rule Cons.IH)
qed

lemma authority_loop_up:
  assumes "rpc_error (chain w) = None"
  shows "authority_loop X u m target slots txs w =
           (Inr txs, w\<lparr>trace := trace w @ replicate (length slots) (GetTokenSupply m)\<rparr>)"
  using assms
proof (induction slots arbitrary: w)
  case Nil
  then show ?case by simp
next
  case (Cons a rest)
  let ?w1 = "w\<lparr>trace := trace w @ [GetTokenSupply m]\<rparr>"
  from Cons.prems have "rpc_error (chain ?w1) = None" by simp
  from Cons.IH [OF this] Cons.prems show ?case
    by (simp add: authority_loop_Cons bindE_def getTokenSupply_def rpc_def replicate_app_Cons_same
          del: authority_loop.simps)
qed

lemma send_loop_Nil: "send_loop X u rp [] = returnOk ()"
  by (rule ext) (simp add: returnOk_def)

lemma framed_emit_report: "framed reading (emit (AuthoritiesSet m t)) (\<lambda>_. True)"
  by (rule framed_emit) simp_all

text \<open>
  So Lock-Authorities only reads: it calls no action of the token library, serializes and
  POSTs nothing, and leaves the ledger, the environment and the checkpoint as they were.
\<close>

lemma framed_lockAuthorities: "framed reading (lockAuthorities X) (\<lambda>_. True)"
proof -
  have tail: "framed reading
       (bindE (authority_loop X u m target slots []) (\<lambda>txs.
        bindE (send_loop X u rp txs) (\<lambda>_. emit (AuthoritiesSet m target)))) (\<lambda>_. True)"
    for u m target slots rp
  proof (rule framed_bindE [OF steady_reading framed_authority_loop])
    fix txs :: "transaction list" assume "txs = []"
    then show "framed reading (bindE (send_loop X u rp txs) (\<lambda>_. emit (AuthoritiesSet m target)))
        (\<lambda>_. True)"
      by (simp add: send_loop_Nil framed_then [OF steady_reading] framed_emit_report
            framed_returnOk [OF steady_reading])
  qed
  show ?thesis
    unfolding lockAuthorities_def Let_def
    by (intro tail reading_rules) simp_all
qed

lemma lockAuthorities_absent:
  assumes "RELAYER_PUBKEY (env w) = Some rp" "is_pubkey X rp"
    and "TREASURY_PUBKEY (env w) = Some tp" "is_pubkey X tp"
    and "\<not> truthy (DAO_PUBKEY (env w)) \<or> (\<exists>d. DAO_PUBKEY (env w) = Some d \<and> is_pubkey X d)"
    and "mint_json w = None"
  shows "lockAuthorities X w = (Inl ''Mint not created. Run create mint first.'', loaded X w)"
  using assms
  by (auto simp add: lockAuthorities_def bindE_def gets_def loadOrCreateUserAuth_eq env_PublicKey_ok
        new_PublicKey_def returnOk_def cached_mint_absent)

lemma lockAuthorities_not_found:
  assumes "RELAYER_PUBKEY (env w) = Some rp" "is_pubkey X rp"
    and "TREASURY_PUBKEY (env w) = Some tp" "is_pubkey X tp"
    and "\<not> truthy (DAO_PUBKEY (env w)) \<or> (\<exists>d. DAO_PUBKEY (env w) = Some d \<and> is_pubkey X d)"
    and "mint_json w = Some m" "is_pubkey X m" "rpc_error (chain w) = None"
    and "\<not> account_exists (chain w) m"
  shows "lockAuthorities X w =
           (Inl ''Mint not found.'', (loaded X w)\<lparr>trace := trace w @ [GetAccountInfo m]\<rparr>)"
  using assms
  by (auto simp add: lockAuthorities_def bindE_def gets_def loadOrCreateUserAuth_eq env_PublicKey_ok
        new_PublicKey_def returnOk_def throwError_def cached_mint_ok getAccountInfo_ok)

lemma lockAuthorities_found:
  assumes "RELAYER_PUBKEY (env w) = Some rp" "is_pubkey X rp"
    and "TREASURY_PUBKEY (env w) = Some tp" "is_pubkey X tp"
    and "\<not> truthy (DAO_PUBKEY (env w)) \<or> (\<exists>d. DAO_PUBKEY (env w) = Some d \<and> is_pubkey X d)"
    and "mint_json w = Some m" "is_pubkey X m" "rpc_error (chain w) = None"
    and "account_exists (chain w) m"
  shows "lockAuthorities X w =
           (Inr (),
            (loaded X w)\<lparr>trace := trace w @ [GetAccountInfo m, GetTokenSupply m, GetTokenSupply m,
                                              AuthoritiesSet m (resolved_target w tp)]\<rparr>)"
proof -
  let ?w1 = "(loaded X w)\<lparr>trace := trace w @ [GetAccountInfo m]\<rparr>"
  have up: "rpc_error (chain ?w1) = None" using assms by simp
  show ?thesis
  proof (cases "truthy (DAO_PUBKEY (env w))")
    case True
    with assms(5) obtain d where d: "DAO_PUBKEY (env w) = Some d" "is_pubkey X d"
      by blast
    with True assms(1-4,6-9) show ?thesis
      by (simp add: lockAuthorities_def bindE_def gets_def loadOrCreateUserAuth_eq env_PublicKey_ok
          new_PublicKey_def returnOk_def throwError_def cached_mint_ok getAccountInfo_ok emit_def
          authority_loop_up [OF up] resolved_target_def numeral_2_eq_2 Let_def
          del: authority_loop.simps)
  next
    case False
    with assms(1-4,6-9) show ?thesis
      by (simp add: lockAuthorities_def bindE_def gets_def loadOrCreateUserAuth_eq env_PublicKey_ok
          new_PublicKey_def returnOk_def throwError_def cached_mint_ok getAccountInfo_ok emit_def
          authority_loop_up [OF up] resolved_target_def numeral_2_eq_2 Let_def
          del: authority_loop.simps)
  qed
qed

section \<open>The status display and the full run\<close>

lemma framed_checkDeploymentStatus: "framed reading (checkDeploymentStatus X) (\<lambda>_. True)"
  unfolding checkDeploymentStatus_def
  by (intro framed_stuck [OF steady_reading] framed_getTokenAccountBalance [OF steady_reading]
        reading_rules) simp_all

text \<open>The full run never returns, since Mint-Supply does not.\<close>

lemma framed_runAllSteps: "framed offline (runAllSteps X) (\<lambda>_. False)"
  unfolding runAllSteps_def
  by (intro framed_then [OF steady_offline] framed_createTokenMint
        framed_stuck [OF steady_offline] framed_mintInitialSupply)

lemma never_returns:
  assumes "framed R m (\<lambda>_. False)"
  shows "\<exists>e. fst (m w) = Inl e"
proof -
  obtain r w' where e: "m w = (r, w')" by (cases "m w")
  from framedD [OF assms e] have "\<forall>x. r \<noteq> Inr x" by simp
  with e show ?thesis by (cases r) simp_all
qed

lemma frame_of:
  assumes "framed R m Q"
  shows "R w (snd (m w))"
  using framedD [OF assms, of w "fst (m w)" "snd (m w)"] by simp

lemma lockAuthorities_reading:
  assumes "lockAuthorities X w = (r, w')"
  shows "serialized (new_events w w') = [] \<and> posted (new_events w w') = [] \<and>
         actions (new_events w w') = [] \<and> posts w' = posts w \<and> chain w' = chain w \<and>
         env w' = env w \<and> mint_json w' = mint_json w"
  using framedD [OF framed_lockAuthorities assms]
  by (simp add: reading_def offline_def)

lemma ex_valid:
  "is_pubkey ex_X ''Relayer''" "is_pubkey ex_X OWNER_ADDRESS" "is_pubkey ex_X ''Mint1''"
  "findAssociatedTokenAddress ex_X OWNER_ADDRESS ''Mint1'' = ''ATokMint1''"
  "findMetadataPda ex_X ''Mint1'' = ''metaMint1''"
  by (simp_all add: ex_X_def OWNER_ADDRESS_def findAssociatedTokenAddress_def findMetadataPda_def)

lemma ex_world_created_simps:
  "RELAYER_PUBKEY (env ex_world_created) = Some ''Relayer''"
  "TREASURY_PUBKEY (env ex_world_created) = Some OWNER_ADDRESS"
  "\<not> truthy (DAO_PUBKEY (env ex_world_created))"
  "AUTHORITY_MODE (env ex_world_created) = Some ''null''"
  "mint_json ex_world_created = Some ''Mint1''"
  "user_auth_json ex_world_created = Some ''User''"
  "rpc_error (chain ex_world_created) = None"
  "account_exists (chain ex_world_created) a = (a = ''Mint1'')"
  "trace ex_world_created = []" "posts ex_world_created = 0"
  "loaded ex_X ex_world_created = ex_world_created"
  "user_key ex_X ex_world_created = ''User''"
  "resolved_target ex_world_created tp = None"
  by (simp_all add: ex_world_created_def ex_world_def ex_env_def ex_chain_deployed_def ex_chain_def
        truthy_def loaded_def user_key_def resolved_target_def targetAuthority_def or_else_def)

section \<open>What Lock-Authorities requires\<close>

text \<open>
  Claim C2, as amended. The prerequisite that Lock-Authorities enforces is the asset, not
  the supply. With a valid environment it fails at once when the checkpoint is absent
  (\<^verbatim>\<open>Mint not created. Run create mint first.\<close>) and, after the one read, when the ledger has
  no account at the checkpointed address (\<^verbatim>\<open>Mint not found.\<close>). With the account there it
  raises no precondition error, whatever the treasury holds: it reads the asset account
  and the token supply of the asset, never the holding account, and returns. In every
  case nothing is serialized for the relayer or POSTed to it.
\<close>

theorem lockAuthorities_requires_mint_account:
  assumes relayer: "RELAYER_PUBKEY (env w) = Some rp" "is_pubkey X rp"
    and treasury: "TREASURY_PUBKEY (env w) = Some tp" "is_pubkey X tp"
    and dao: "\<not> truthy (DAO_PUBKEY (env w)) \<or> (\<exists>d. DAO_PUBKEY (env w) = Some d \<and> is_pubkey X d)"
    and run: "lockAuthorities X w = (r, w')"
  shows "(mint_json w = None \<longrightarrow>
            r = Inl ''Mint not created. Run create mint first.'' \<and> new_events w w' = []) \<and>
         (\<forall>m. mint_json w = Some m \<and> is_pubkey X m \<and> rpc_error (chain w) = None \<and>
              \<not> account_exists (chain w) m \<longrightarrow>
            r = Inl ''Mint not found.'' \<and> new_events w w' = [GetAccountInfo m]) \<and>
         (\<forall>m. mint_json w = Some m \<and> is_pubkey X m \<and> rpc_error (chain w) = None \<and>
              account_exists (chain w) m \<longrightarrow>
            r = Inr () \<and>
            new_events w w' = [GetAccountInfo m, GetTokenSupply m, GetTokenSupply m,
                               AuthoritiesSet m (resolved_target w tp)]) \<and>
         posts w' = posts w \<and> posted (new_events w w') = [] \<and> serialized (new_events w w') = []"
proof (intro conjI allI impI)
  assume "mint_json w = None"
  from lockAuthorities_absent [OF relayer treasury dao this] run
  have "r = Inl ''Mint not created. Run create mint first.''" "w' = loaded X w"
    by simp_all
  then show "r = Inl ''Mint not created. Run create mint first.''" "new_events w w' = []"
    by (simp_all add: new_events_def)
next
  fix m
  assume "mint_json w = Some m \<and> is_pubkey X m \<and> rpc_error (chain w) = None \<and>
              \<not> account_exists (chain w) m"
  then have "lockAuthorities X w =
           (Inl ''Mint not found.'', (loaded X w)\<lparr>trace := trace w @ [GetAccountInfo m]\<rparr>)"
    using relayer treasury dao by (intro lockAuthorities_not_found [where rp = rp and tp = tp]) simp_all
  with run have "r = Inl ''Mint not found.''"
    "w' = (loaded X w)\<lparr>trace := trace w @ [GetAccountInfo m]\<rparr>"
    by simp_all
  then show "r = Inl ''Mint not found.''" "new_events w w' = [GetAccountInfo m]"
    by (simp_all add: new_events_def)
next
  fix m
  assume "mint_json w = Some m \<and> is_pubkey X m \<and> rpc_error (chain w) = None \<and>
              account_exists (chain w) m"
  then have "lockAuthorities X w =
           (Inr (),
            (loaded X w)\<lparr>trace := trace w @ [GetAccountInfo m, GetTokenSupply m, GetTokenSupply m,
                                              AuthoritiesSet m (resolved_target w tp)]\<rparr>)"
    using relayer treasury dao by (intro lockAuthorities_found [where rp = rp]) simp_all
  with run have "r = Inr ()"
    "w' = (loaded X w)\<lparr>trace := trace w @ [GetAccountInfo m, GetTokenSupply m, GetTokenSupply m,
                                             AuthoritiesSet m (resolved_target w tp)]\<rparr>"
    by simp_all
  then show "r = Inr ()"
    "new_events w w' = [GetAccountInfo m, GetTokenSupply m, GetTokenSupply m,
                        AuthoritiesSet m (resolved_target w tp)]"
    by (simp_all add: new_events_def)
next
  from lockAuthorities_reading [OF run]
  show "posts w' = posts w" "posted (new_events w w') = []" "serialized (new_events w w') = []"
    by simp_all
qed

theorem lockAuthorities_requires_mint_account_witness:
  "fst (lockAuthorities ex_X ex_world) = Inl ''Mint not created. Run create mint first.'' \<and>
   new_events ex_world (snd (lockAuthorities ex_X ex_world)) = [] \<and>
   fst (lockAuthorities ex_X ex_world_stale) = Inl ''Mint not found.'' \<and>
   new_events ex_world_stale (snd (lockAuthorities ex_X ex_world_stale)) = [GetAccountInfo ''Mint1''] \<and>
   fst (lockAuthorities ex_X ex_world_created) = Inr () \<and>
   new_events ex_world_created (snd (lockAuthorities ex_X ex_world_created)) =
     [GetAccountInfo ''Mint1'', GetTokenSupply ''Mint1'', GetTokenSupply ''Mint1'',
      AuthoritiesSet ''Mint1'' None] \<and>
   posts (snd (lockAuthorities ex_X ex_world_created)) = posts ex_world_created"
proof -
  have a: "RELAYER_PUBKEY (env ex_world) = Some ''Relayer''"
    "TREASURY_PUBKEY (env ex_world) = Some OWNER_ADDRESS"
    "\<not> truthy (DAO_PUBKEY (env ex_world)) \<or>
       (\<exists>d. DAO_PUBKEY (env ex_world) = Some d \<and> is_pubkey ex_X d)"
    "mint_json ex_world = None"
    by (simp_all add: ex_world_def ex_env_def truthy_def)
  have b: "RELAYER_PUBKEY (env ex_world_stale) = Some ''Relayer''"
    "TREASURY_PUBKEY (env ex_world_stale) = Some OWNER_ADDRESS"
    "\<not> truthy (DAO_PUBKEY (env ex_world_stale)) \<or>
       (\<exists>d. DAO_PUBKEY (env ex_world_stale) = Some d \<and> is_pubkey ex_X d)"
    "mint_json ex_world_stale = Some ''Mint1'' \<and> is_pubkey ex_X ''Mint1'' \<and>
       rpc_error (chain ex_world_stale) = None \<and> \<not> account_exists (chain ex_world_stale) ''Mint1''"
    by (simp_all add: ex_world_stale_def ex_world_def ex_env_def ex_X_def ex_chain_def truthy_def)
  have c: "\<not> truthy (DAO_PUBKEY (env ex_world_created)) \<or>
       (\<exists>d. DAO_PUBKEY (env ex_world_created) = Some d \<and> is_pubkey ex_X d)"
    "mint_json ex_world_created = Some ''Mint1'' \<and> is_pubkey ex_X ''Mint1'' \<and>
       rpc_error (chain ex_world_created) = None \<and> account_exists (chain ex_world_created) ''Mint1''"
    by (simp_all add: ex_world_created_simps ex_valid)
  have r1: "lockAuthorities ex_X ex_world =
      (fst (lockAuthorities ex_X ex_world), snd (lockAuthorities ex_X ex_world))"
    by simp
  have r2: "lockAuthorities ex_X ex_world_stale =
      (fst (lockAuthorities ex_X ex_world_stale), snd (lockAuthorities ex_X ex_world_stale))"
    by simp
  have r3: "lockAuthorities ex_X ex_world_created =
      (fst (lockAuthorities ex_X ex_world_created), snd (lockAuthorities ex_X ex_world_created))"
    by simp
  from lockAuthorities_requires_mint_account [OF a(1) ex_valid(1) a(2) ex_valid(2) a(3) r1] a(4)
  have 1: "fst (lockAuthorities ex_X ex_world) = Inl ''Mint not created. Run create mint first.'' \<and>
     new_events ex_world (snd (lockAuthorities ex_X ex_world)) = []"
    by blast
  from lockAuthorities_requires_mint_account [OF b(1) ex_valid(1) b(2) ex_valid(2) b(3) r2] b(4)
  have 2: "fst (lockAuthorities ex_X ex_world_stale) = Inl ''Mint not found.'' \<and>
     new_events ex_world_stale (snd (lockAuthorities ex_X ex_world_stale)) = [GetAccountInfo ''Mint1'']"
    by blast
  from lockAuthorities_requires_mint_account
         [OF ex_world_created_simps(1) ex_valid(1) ex_world_created_simps(2) ex_valid(2) c(1) r3] c(2)
  have 3: "fst (lockAuthorities ex_X ex_world_created) = Inr () \<and>
     new_events ex_world_created (snd (lockAuthorities ex_X ex_world_created)) =
       [GetAccountInfo ''Mint1'', GetTokenSupply ''Mint1'', GetTokenSupply ''Mint1'',
        AuthoritiesSet ''Mint1'' (resolved_target ex_world_created OWNER_ADDRESS)] \<and>
     posts (snd (lockAuthorities ex_X ex_world_created)) = posts ex_world_created"
    by blast
  from 1 2 3 show ?thesis by (simp add: ex_world_created_simps)
qed

text \<open>
  The claim as written (Lock-Authorities fails with a precondition error while the supply
  has not been minted) fails: on a deployment whose asset exists and whose treasury has no
  holding account yet, the invocation returns normally after the three reads.
\<close>

theorem lockAuthorities_runs_before_supply_is_minted:
  "\<not> account_exists (chain ex_world_created) (findAssociatedTokenAddress ex_X OWNER_ADDRESS ''Mint1'') \<and>
   token_amount (chain ex_world_created) (findAssociatedTokenAddress ex_X OWNER_ADDRESS ''Mint1'') = 0 \<and>
   lockAuthorities ex_X ex_world_created =
     (Inr (),
      ex_world_created\<lparr>trace := [GetAccountInfo ''Mint1'', GetTokenSupply ''Mint1'',
                                 GetTokenSupply ''Mint1'', AuthoritiesSet ''Mint1'' None]\<rparr>)"
proof -
  have "\<not> truthy (DAO_PUBKEY (env ex_world_created)) \<or>
       (\<exists>d. DAO_PUBKEY (env ex_world_created) = Some d \<and> is_pubkey ex_X d)"
    by (simp add: ex_world_created_simps)
  from lockAuthorities_found
         [OF ex_world_created_simps(1) ex_valid(1) ex_world_created_simps(2) ex_valid(2) this
             ex_world_created_simps(5) ex_valid(3) ex_world_created_simps(7)]
  have "lockAuthorities ex_X ex_world_created =
     (Inr (),
      ex_world_created\<lparr>trace := [GetAccountInfo ''Mint1'', GetTokenSupply ''Mint1'',
                                 GetTokenSupply ''Mint1'', AuthoritiesSet ''Mint1'' None]\<rparr>)"
    by (simp add: ex_world_created_simps)
  moreover have "token_amount (chain ex_world_created) ''ATokMint1'' = 0"
    by (simp add: ex_world_created_def ex_chain_deployed_def ex_chain_def)
  ultimately show ?thesis
    by (simp add: ex_valid ex_world_created_simps)
qed

section \<open>Lock-Authorities run twice\<close>




section \<open>The DAO mode without a DAO key\<close>

lemma checkEnv_accepts:
  assumes "truthy (RPC_URL (env w))" "truthy (RELAYER_URL (env w))"
    and "RELAYER_PUBKEY (env w) = Some rp" "rp \<noteq> []" "is_pubkey X rp"
    and "TREASURY_PUBKEY (env w) = Some OWNER_ADDRESS" "is_pubkey X OWNER_ADDRESS"
    and "\<not> truthy (DAO_PUBKEY (env w)) \<or> (\<exists>d. DAO_PUBKEY (env w) = Some d \<and> is_pubkey X d)"
    and "or_else (AUTHORITY_MODE (env w)) [] \<in> set [''null'', ''dao'', ''treasury'']"
    and "rpc_error (chain w) = None"
  shows "checkEnv X w = (Inr True, w\<lparr>trace := trace w @ [GetLatestBlockhash]\<rparr>)"
proof -
  have owner: "truthy (Some OWNER_ADDRESS)"
    by (simp add: truthy_def OWNER_ADDRESS_def)
  have keys: "catchE
       (bindE (env_PublicKey X RELAYER_PUBKEY) (\<lambda>_.
        bindE (env_PublicKey X TREASURY_PUBKEY) (\<lambda>treasuryPubkey.
        (\<lambda>w'. if TREASURY_PUBKEY (env w') \<noteq> Some OWNER_ADDRESS then (Inr False, w')
               else bindE (if truthy (DAO_PUBKEY (env w'))
                           then bindE (env_PublicKey X DAO_PUBKEY) (\<lambda>_. returnOk ())
                           else returnOk ()) (\<lambda>_. returnOk True) w'))))
       (\<lambda>e. returnOk False) w = (Inr True, w)"
    using assms(3,5,6,7,8)
    by (auto simp: catchE_def bindE_def gets_def env_PublicKey_ok returnOk_def)
  have "list_all truthy
          [RPC_URL (env w), RELAYER_URL (env w), RELAYER_PUBKEY (env w), TREASURY_PUBKEY (env w)]"
    using assms(1,2,3,4,6) owner by (simp add: truthy_def)
  then show ?thesis
    using assms(9,10) unfolding checkEnv_def keys
    by (simp add: catchE_def bindE_def gets_def rpc_def returnOk_def)
qed

text \<open>
  Claim C9. With \<^verbatim>\<open>AUTHORITY_MODE=dao\<close> and \<^verbatim>\<open>DAO_PUBKEY\<close> unset or empty, and an environment
  that is valid otherwise, the environment check succeeds and the target authority
  resolves to null. Lock-Authorities does not fail on the missing key: with the
  checkpointed asset on the ledger it returns normally, and the target it reports is null,
  not a DAO address.
\<close>

theorem dao_mode_without_key_locks_to_null:
  assumes urls: "truthy (RPC_URL (env w))" "truthy (RELAYER_URL (env w))"
    and relayer: "RELAYER_PUBKEY (env w) = Some rp" "rp \<noteq> []" "is_pubkey X rp"
    and treasury: "TREASURY_PUBKEY (env w) = Some OWNER_ADDRESS" "is_pubkey X OWNER_ADDRESS"
    and mode: "AUTHORITY_MODE (env w) = Some ''dao''"
    and nodao: "\<not> truthy (DAO_PUBKEY (env w))"
    and up: "rpc_error (chain w) = None"
  shows "fst (checkEnv X w) = Inr True \<and>
         resolved_target w OWNER_ADDRESS = None \<and>
         (\<forall>m. mint_json w = Some m \<and> is_pubkey X m \<and> account_exists (chain w) m \<longrightarrow>
            fst (lockAuthorities X w) = Inr () \<and>
            new_events w (snd (lockAuthorities X w)) =
              [GetAccountInfo m, GetTokenSupply m, GetTokenSupply m, AuthoritiesSet m None] \<and>
            announced (new_events w (snd (lockAuthorities X w))) = [(m, None)])"
proof -
  have dao: "\<not> truthy (DAO_PUBKEY (env w)) \<or> (\<exists>d. DAO_PUBKEY (env w) = Some d \<and> is_pubkey X d)"
    using nodao by simp
  have m: "or_else (AUTHORITY_MODE (env w)) [] \<in> set [''null'', ''dao'', ''treasury'']"
    using mode by (simp add: or_else_def)
  from checkEnv_accepts [OF urls relayer treasury dao m up]
  have 1: "fst (checkEnv X w) = Inr True" by simp
  have 2: "resolved_target w OWNER_ADDRESS = None"
    using mode nodao by (simp add: resolved_target_def targetAuthority_def or_else_def)
  have 3: "fst (lockAuthorities X w) = Inr () \<and>
           new_events w (snd (lockAuthorities X w)) =
             [GetAccountInfo m, GetTokenSupply m, GetTokenSupply m, AuthoritiesSet m None] \<and>
           announced (new_events w (snd (lockAuthorities X w))) = [(m, None)]"
    if "mint_json w = Some m \<and> is_pubkey X m \<and> account_exists (chain w) m" for m
  proof -
    from that have mint: "mint_json w = Some m" "is_pubkey X m"
      and found: "account_exists (chain w) m"
      by simp_all
    from lockAuthorities_found [OF relayer(1) relayer(3) treasury dao mint up found] 2
    show ?thesis by (simp add: new_events_def)
  qed
  from 1 2 3 show ?thesis by blast
qed

theorem dao_mode_without_key_locks_to_null_witness:
  "AUTHORITY_MODE (env ex_world_dao) = Some ''dao'' \<and> DAO_PUBKEY (env ex_world_dao) = None \<and>
   fst (checkEnv ex_X ex_world_dao) = Inr True \<and>
   resolved_target ex_world_dao OWNER_ADDRESS = None \<and>
   fst (lockAuthorities ex_X ex_world_dao) = Inr () \<and>
   new_events ex_world_dao (snd (lockAuthorities ex_X ex_world_dao)) =
     [GetAccountInfo ''Mint1'', GetTokenSupply ''Mint1'', GetTokenSupply ''Mint1'',
      AuthoritiesSet ''Mint1'' None] \<and>
   announced (new_events ex_world_dao (snd (lockAuthorities ex_X ex_world_dao))) = [(''Mint1'', None)]"
proof -
  have h: "truthy (RPC_URL (env ex_world_dao))" "truthy (RELAYER_URL (env ex_world_dao))"
    "RELAYER_PUBKEY (env ex_world_dao) = Some ''Relayer''" "''Relayer'' \<noteq> []"
    "is_pubkey ex_X ''Relayer''"
    "TREASURY_PUBKEY (env ex_world_dao) = Some OWNER_ADDRESS" "is_pubkey ex_X OWNER_ADDRESS"
    "AUTHORITY_MODE (env ex_world_dao) = Some ''dao''"
    "\<not> truthy (DAO_PUBKEY (env ex_world_dao))"
    "rpc_error (chain ex_world_dao) = None"
    by (simp_all add: ex_world_dao_def ex_world_created_def ex_world_def ex_env_def ex_X_def
          ex_chain_deployed_def ex_chain_def OWNER_ADDRESS_def truthy_def)
  have g: "mint_json ex_world_dao = Some ''Mint1'' \<and> is_pubkey ex_X ''Mint1'' \<and>
    account_exists (chain ex_world_dao) ''Mint1''"
    "DAO_PUBKEY (env ex_world_dao) = None"
    by (simp_all add: ex_world_dao_def ex_world_created_def ex_world_def ex_env_def ex_X_def
          ex_chain_deployed_def ex_chain_def)
  from dao_mode_without_key_locks_to_null [OF h] g h(8)
  show ?thesis by blast
qed

section \<open>Create-Asset and the checkpoint\<close>

lemma createTokenMint_cached:
  assumes "mint_json w = Some m" and "is_pubkey X m"
    and "RELAYER_PUBKEY (env w) = Some rp" and "is_pubkey X rp"
    and "rpc_error (chain w) = None" and "account_exists (chain w) m"
  shows "createTokenMint X w = (Inr m, (loaded X w)\<lparr>trace := trace w @ [GetAccountInfo m]\<rparr>)"
  using assms
  by (simp add: createTokenMint_def bindE_def gets_def loadOrCreateUserAuth_eq env_PublicKey_ok
        new_PublicKey_def returnOk_def getAccountInfo_ok)

text \<open>
  Without a checkpoint: the identity is loaded, a key pair is generated, \<^verbatim>\<open>createMint\<close> is
  called for it, and the call of Create-Asset ends with the error of the library or, when
  the library resolved, with the error of \<^verbatim>\<open>partialSign\<close>.
\<close>

lemma createTokenMint_fresh:
  assumes "mint_json w = None" and "RELAYER_PUBKEY (env w) = Some rp" and "is_pubkey X rp"
  shows "createTokenMint X w =
     (Inl (case fst (library X (CreateMint (user_key X w) (user_key X w) (user_key X w) 9
                                  (fresh_mint X w)) (chain w)) of
             Inl e \<Rightarrow> e
           | Inr s \<Rightarrow> ''Transaction recentBlockhash required''),
      (loaded X w)\<lparr>keys_generated := keys_generated (loaded X w) + 1,
                   chain := snd (library X (CreateMint (user_key X w) (user_key X w) (user_key X w) 9
                                              (fresh_mint X w)) (chain w)),
                   trace := trace w @ [Action (CreateMint (user_key X w) (user_key X w)
                                                 (user_key X w) 9 (fresh_mint X w))]\<rparr>)"
proof -
  let ?a = "CreateMint (user_key X w) (user_key X w) (user_key X w) 9 (fresh_mint X w)"
  obtain r c where l: "library X ?a (chain w) = (r, c)" by (cases "library X ?a (chain w)")
  have s: "sign_and_send X rp (a # ss)
             \<lparr>instructions = ixs, signers = sg, feePayer = fp, recentBlockhash = None\<rparr> v =
             (Inl ''Transaction recentBlockhash required'', v)" for a ss ixs sg fp v
    using sign_and_send_unanchored
            [of "\<lparr>instructions = ixs, signers = sg, feePayer = fp, recentBlockhash = None\<rparr>"
                X rp "a # ss" v]
    by (simp add: unanchored_def)
  show ?thesis
    using assms l
    by (cases r)
       (simp_all add: createTokenMint_def bindE_def gets_def loadOrCreateUserAuth_eq env_PublicKey_ok
          returnOk_def Keypair_generate_def createMint_def act_def Transaction_add_def s
          fresh_mint_def new_Transaction_def)
qed

text \<open>
  Claim C4, as amended. Create-Asset looks at the ledger only through the checkpoint.
  When \<^verbatim>\<open>mint.json\<close> holds an address and the ledger has an account there, the step
  returns that address after the one read, creates nothing and leaves the checkpoint and
  the ledger as they are. When the checkpoint is absent the step reads no account at all,
  so it cannot find an asset that is already there: all it does on the network is have
  the token library create a mint for a fresh key pair, it does not return the address of
  an existing asset, and it persists no address.
\<close>

theorem createTokenMint_reconciles_only_with_checkpoint:
  assumes relayer: "RELAYER_PUBKEY (env w) = Some rp" "is_pubkey X rp"
    and run: "createTokenMint X w = (r, w')"
  shows "(\<forall>m. mint_json w = Some m \<and> is_pubkey X m \<and> rpc_error (chain w) = None \<and>
              account_exists (chain w) m \<longrightarrow>
            r = Inr m \<and> mint_json w' = Some m \<and> new_events w w' = [GetAccountInfo m] \<and>
            chain w' = chain w \<and> posts w' = posts w) \<and>
         (mint_json w = None \<longrightarrow>
            account_reads (new_events w w') = [] \<and>
            new_events w w' = [Action (CreateMint (user_key X w) (user_key X w) (user_key X w) 9
                                         (fresh_mint X w))] \<and>
            (\<forall>a. r \<noteq> Inr a) \<and> mint_json w' = None \<and> posts w' = posts w)"
proof (intro conjI allI impI)
  fix m
  assume h: "mint_json w = Some m \<and> is_pubkey X m \<and> rpc_error (chain w) = None \<and>
              account_exists (chain w) m"
  then have "createTokenMint X w = (Inr m, (loaded X w)\<lparr>trace := trace w @ [GetAccountInfo m]\<rparr>)"
    using relayer by (intro createTokenMint_cached [where rp = rp]) simp_all
  with run have "r = Inr m" and w': "w' = (loaded X w)\<lparr>trace := trace w @ [GetAccountInfo m]\<rparr>"
    by simp_all
  moreover have "mint_json w' = mint_json w" "posts w' = posts w" "chain w' = chain w"
    "trace w' = trace w @ [GetAccountInfo m]"
    using w' by simp_all
  ultimately show "r = Inr m" "mint_json w' = Some m" "new_events w w' = [GetAccountInfo m]"
    "chain w' = chain w" "posts w' = posts w"
    using h by (simp_all add: new_events_def)
next
  assume absent: "mint_json w = None"
  let ?a = "CreateMint (user_key X w) (user_key X w) (user_key X w) 9 (fresh_mint X w)"
  from createTokenMint_fresh [OF absent relayer] run
  have r: "r = Inl (case fst (library X ?a (chain w)) of
                      Inl e \<Rightarrow> e | Inr s \<Rightarrow> ''Transaction recentBlockhash required'')"
    and w': "w' = (loaded X w)\<lparr>keys_generated := keys_generated (loaded X w) + 1,
                   chain := snd (library X ?a (chain w)), trace := trace w @ [Action ?a]\<rparr>"
    by simp_all
  from w' have ne: "new_events w w' = [Action ?a]" by (simp add: new_events_def)
  show "account_reads (new_events w w') = []" using ne by simp
  show "new_events w w' = [Action ?a]" by (rule ne)
  show "r \<noteq> Inr a" for a using r by simp
  show "mint_json w' = None" using w' absent by simp
  show "posts w' = posts w" using w' by simp
qed

lemma ex_world_orphan_simps:
  "RELAYER_PUBKEY (env ex_world_orphan) = Some ''Relayer''"
  "TREASURY_PUBKEY (env ex_world_orphan) = Some OWNER_ADDRESS"
  "mint_json ex_world_orphan = None"
  "account_exists (chain ex_world_orphan) a = (a = ''Mint1'')"
  "user_key ex_X ex_world_orphan = ''User''"
  "fresh_mint ex_X ex_world_orphan = ''Key0''"
  "loaded ex_X ex_world_orphan = ex_world_orphan"
  "trace ex_world_orphan = []" "keys_generated ex_world_orphan = 0"
  by (simp_all add: ex_world_orphan_def ex_world_created_def ex_world_def ex_env_def
        ex_chain_deployed_def ex_chain_def user_key_def fresh_mint_def loaded_def ex_X_def)

theorem createTokenMint_reconciles_only_with_checkpoint_witness:
  "fst (createTokenMint ex_X ex_world_created) = Inr ''Mint1'' \<and>
   mint_json (snd (createTokenMint ex_X ex_world_created)) = Some ''Mint1'' \<and>
   new_events ex_world_created (snd (createTokenMint ex_X ex_world_created)) = [GetAccountInfo ''Mint1''] \<and>
   account_reads (new_events ex_world_orphan (snd (createTokenMint ex_X ex_world_orphan))) = [] \<and>
   new_events ex_world_orphan (snd (createTokenMint ex_X ex_world_orphan)) =
     [Action (CreateMint ''User'' ''User'' ''User'' 9 ''Key0'')] \<and>
   mint_json (snd (createTokenMint ex_X ex_world_orphan)) = None"
proof -
  have c: "mint_json ex_world_created = Some ''Mint1'' \<and> is_pubkey ex_X ''Mint1'' \<and>
       rpc_error (chain ex_world_created) = None \<and> account_exists (chain ex_world_created) ''Mint1''"
    by (simp add: ex_world_created_simps ex_valid)
  have r1: "createTokenMint ex_X ex_world_created =
      (fst (createTokenMint ex_X ex_world_created), snd (createTokenMint ex_X ex_world_created))"
    by simp
  have r2: "createTokenMint ex_X ex_world_orphan =
      (fst (createTokenMint ex_X ex_world_orphan), snd (createTokenMint ex_X ex_world_orphan))"
    by simp
  from createTokenMint_reconciles_only_with_checkpoint
         [OF ex_world_created_simps(1) ex_valid(1) r1] c
  have 1: "fst (createTokenMint ex_X ex_world_created) = Inr ''Mint1'' \<and>
     mint_json (snd (createTokenMint ex_X ex_world_created)) = Some ''Mint1'' \<and>
     new_events ex_world_created (snd (createTokenMint ex_X ex_world_created)) = [GetAccountInfo ''Mint1'']"
    by blast
  from createTokenMint_reconciles_only_with_checkpoint
         [OF ex_world_orphan_simps(1) ex_valid(1) r2] ex_world_orphan_simps(3)
  have 2: "account_reads (new_events ex_world_orphan (snd (createTokenMint ex_X ex_world_orphan))) = [] \<and>
     new_events ex_world_orphan (snd (createTokenMint ex_X ex_world_orphan)) =
       [Action (CreateMint (user_key ex_X ex_world_orphan) (user_key ex_X ex_world_orphan)
                  (user_key ex_X ex_world_orphan) 9 (fresh_mint ex_X ex_world_orphan))] \<and>
     mint_json (snd (createTokenMint ex_X ex_world_orphan)) = None"
    by blast
  from 1 2 show ?thesis by (simp add: ex_world_orphan_simps)
qed

text \<open>
  The claim as written (with the checkpoint lost and the asset on the ledger, Create-Asset
  finds the asset, creates nothing and persists the recovered address) fails: the ledger
  holds the asset \<^verbatim>\<open>Mint1\<close>, the step reads no account, has the library create a mint for
  the fresh key \<^verbatim>\<open>Key0\<close>, ends in an error and leaves the checkpoint absent.
\<close>

theorem createTokenMint_creates_again_without_checkpoint:
  "mint_json ex_world_orphan = None \<and> account_exists (chain ex_world_orphan) ''Mint1'' \<and>
   fst (createTokenMint ex_X ex_world_orphan) = Inl ''Transaction recentBlockhash required'' \<and>
   trace (snd (createTokenMint ex_X ex_world_orphan)) =
     [Action (CreateMint ''User'' ''User'' ''User'' 9 ''Key0'')] \<and>
   mint_json (snd (createTokenMint ex_X ex_world_orphan)) = None"
proof -
  have "fst (library ex_X (CreateMint ''User'' ''User'' ''User'' 9 ''Key0'') (chain ex_world_orphan)) =
          Inr ''LibSig''"
    by (simp add: ex_X_def)
  with createTokenMint_fresh [OF ex_world_orphan_simps(3) ex_world_orphan_simps(1) ex_valid(1)]
  show ?thesis
    by (simp add: ex_world_orphan_simps)
qed

section \<open>Mint-Supply\<close>

lemma supply_total_eq: "supply_total = 10 ^ 18"
  by (simp add: supply_total_def)

lemma mintInitialSupply_never_completes: "\<exists>e. fst (mintInitialSupply X w) = Inl e"
  using framed_mintInitialSupply by (rule never_returns)

lemma mintInitialSupply_balance_call:
  assumes "RELAYER_PUBKEY (env w) = Some rp" "is_pubkey X rp"
    and "TREASURY_PUBKEY (env w) = Some tp" "is_pubkey X tp"
    and "mint_json w = Some m" "is_pubkey X m" "rpc_error (chain w) = None"
    and "account_exists (chain w) (findAssociatedTokenAddress X tp m)"
  shows "mintInitialSupply X w =
           (Inl ''TypeError: getTokenAccountBalance is not a function'',
            (loaded X w)\<lparr>trace := trace w @ [GetAccountInfo (findAssociatedTokenAddress X tp m)]\<rparr>)"
  using assms
  by (simp add: mintInitialSupply_def bindE_def gets_def loadOrCreateUserAuth_eq env_PublicKey_ok
        cached_mint_ok getAccountInfo_ok getTokenAccountBalance_def throwError_def Let_def)

lemma mintInitialSupply_account_property:
  assumes "RELAYER_PUBKEY (env w) = Some rp" "is_pubkey X rp"
    and "TREASURY_PUBKEY (env w) = Some tp" "is_pubkey X tp"
    and "mint_json w = Some m" "is_pubkey X m" "rpc_error (chain w) = None"
    and "\<not> account_exists (chain w) (findAssociatedTokenAddress X tp m)"
    and "fst (library X (GetOrCreateAssociatedTokenAccount (user_key X w) m tp) (chain w)) = Inr s"
  shows "mintInitialSupply X w =
           (Inl ''TypeError: Cannot use in operator to search for instructions in undefined'',
            (loaded X w)\<lparr>chain := snd (library X (GetOrCreateAssociatedTokenAccount (user_key X w) m tp)
                                            (chain w)),
                         trace := trace w @ [GetAccountInfo (findAssociatedTokenAddress X tp m),
                            Action (GetOrCreateAssociatedTokenAccount (user_key X w) m tp)]\<rparr>)"
proof -
  obtain r c where l: "library X (GetOrCreateAssociatedTokenAccount (user_key X w) m tp) (chain w) = (r, c)"
    by (cases "library X (GetOrCreateAssociatedTokenAccount (user_key X w) m tp) (chain w)")
  with assms(9) have r: "r = Inr s" by simp
  show ?thesis
    using assms(1-8) l r
    by (simp add: mintInitialSupply_def bindE_def gets_def loadOrCreateUserAuth_eq env_PublicKey_ok
        cached_mint_ok getAccountInfo_ok returnOk_def throwError_def Let_def
        getOrCreateAssociatedTokenAccount_def act_def instruction_property_def Transaction_add_def)
qed

text \<open>
  Claim C7, at two deployments. On the first the treasury's holding account exists and
  holds the whole supply of \<open>10 ^ 18\<close> base units: Mint-Supply does not complete but throws,
  at the call of \<^verbatim>\<open>getTokenAccountBalance\<close>. On the second the holding account does not
  exist: the token library is made to create it, then Mint-Supply throws where it adds the
  \<^verbatim>\<open>instruction\<close> property of the result to its transaction, so nothing is handed to the
  submitter.
\<close>

theorem mintInitialSupply_throws_in_both_branches:
  "account_exists (chain ex_world_minted) (findAssociatedTokenAddress ex_X OWNER_ADDRESS ''Mint1'') \<and>
   token_amount (chain ex_world_minted) (findAssociatedTokenAddress ex_X OWNER_ADDRESS ''Mint1'') = 10 ^ 18 \<and>
   supply_total = 10 ^ 18 \<and>
   mintInitialSupply ex_X ex_world_minted =
     (Inl ''TypeError: getTokenAccountBalance is not a function'',
      ex_world_minted\<lparr>trace := [GetAccountInfo ''ATokMint1'']\<rparr>) \<and>
   \<not> account_exists (chain ex_world_created) (findAssociatedTokenAddress ex_X OWNER_ADDRESS ''Mint1'') \<and>
   mintInitialSupply ex_X ex_world_created =
     (Inl ''TypeError: Cannot use in operator to search for instructions in undefined'',
      ex_world_created\<lparr>trace := [GetAccountInfo ''ATokMint1'',
         Action (GetOrCreateAssociatedTokenAccount ''User'' ''Mint1'' OWNER_ADDRESS)]\<rparr>)"
proof -
  have m: "RELAYER_PUBKEY (env ex_world_minted) = Some ''Relayer''"
    "TREASURY_PUBKEY (env ex_world_minted) = Some OWNER_ADDRESS"
    "mint_json ex_world_minted = Some ''Mint1''" "rpc_error (chain ex_world_minted) = None"
    "account_exists (chain ex_world_minted) ''ATokMint1''"
    "token_amount (chain ex_world_minted) ''ATokMint1'' = 10 ^ 18"
    "loaded ex_X ex_world_minted = ex_world_minted" "trace ex_world_minted = []"
    by (simp_all add: ex_world_minted_def ex_world_created_def ex_world_def ex_env_def
          ex_chain_deployed_def ex_chain_def loaded_def)
  have 1: "mintInitialSupply ex_X ex_world_minted =
     (Inl ''TypeError: getTokenAccountBalance is not a function'',
      ex_world_minted\<lparr>trace := [GetAccountInfo ''ATokMint1'']\<rparr>)"
    using mintInitialSupply_balance_call [OF m(1) ex_valid(1) m(2) ex_valid(2) m(3) ex_valid(3) m(4)] m
    by (simp add: ex_valid)
  have l: "library ex_X (GetOrCreateAssociatedTokenAccount ''User'' ''Mint1'' OWNER_ADDRESS)
             (chain ex_world_created) = (Inr ''LibSig'', chain ex_world_created)"
    by (simp add: ex_X_def)
  have 2: "mintInitialSupply ex_X ex_world_created =
     (Inl ''TypeError: Cannot use in operator to search for instructions in undefined'',
      ex_world_created\<lparr>trace := [GetAccountInfo ''ATokMint1'',
         Action (GetOrCreateAssociatedTokenAccount ''User'' ''Mint1'' OWNER_ADDRESS)]\<rparr>)"
    using mintInitialSupply_account_property
            [OF ex_world_created_simps(1) ex_valid(1) ex_world_created_simps(2) ex_valid(2)
                ex_world_created_simps(5) ex_valid(3) ex_world_created_simps(7), of "''LibSig''"] l
    by (simp add: ex_valid ex_world_created_simps)
  from 1 2 m(5,6) show ?thesis
    by (simp add: ex_valid ex_world_created_simps supply_total_eq)
qed

section \<open>What a dry run does and leaves alone\<close>

text \<open>
  Claim C3, as amended. With \<^verbatim>\<open>DRY_RUN=true\<close> the submitter still reads the recency anchor
  from the ledger before it serializes: that read is its one network call. Once the fee
  payer is a key and the read has succeeded it returns the sentinel signature, and the
  serialization is the last event, so no POST and no confirmation wait follow; when the
  read fails the call fails with the error of the read, and with a fee payer that is not
  a key it fails before any read. It can return no other signature, and it leaves the
  checkpoint alone. Each step executor and the full run leave the environment and the
  checkpoint \<^verbatim>\<open>mint.json\<close> as they were and serialize and POST nothing (\<open>offline\<close>).
\<close>

theorem dry_run_reads_anchor_and_keeps_checkpoint:
  assumes dry: "DRY_RUN (env w) = Some ''true''"
  shows "(\<forall>s. fst (sendViaRelayer X pk url tx key w) = Inr s \<longrightarrow> s = ''DRY_RUN_SIGNATURE'') \<and>
         (is_pubkey X pk \<and> rpc_error (chain w) = None \<longrightarrow>
            sendViaRelayer X pk url tx key w =
              (Inr ''DRY_RUN_SIGNATURE'',
               w\<lparr>trace := trace w @ [GetLatestBlockhash, Serialize (finalize tx pk (chain w))]\<rparr>)) \<and>
         (\<forall>msg. is_pubkey X pk \<and> rpc_error (chain w) = Some msg \<longrightarrow>
            sendViaRelayer X pk url tx key w =
              (Inl msg, w\<lparr>trace := trace w @ [GetLatestBlockhash]\<rparr>)) \<and>
         (\<not> is_pubkey X pk \<longrightarrow>
            sendViaRelayer X pk url tx key w = (Inl ''Invalid public key input'', w)) \<and>
         mint_json (snd (sendViaRelayer X pk url tx key w)) = mint_json w \<and>
         posts (snd (sendViaRelayer X pk url tx key w)) = posts w \<and>
         posted (new_events w (snd (sendViaRelayer X pk url tx key w))) = [] \<and>
         offline w (snd (createTokenMint X w)) \<and>
         offline w (snd (mintInitialSupply X w)) \<and>
         offline w (snd (setTokenMetadata X w)) \<and>
         offline w (snd (lockAuthorities X w)) \<and>
         offline w (snd (runAllSteps X w))"
proof -
  note d = sendViaRelayer_dry [OF dry, of X pk url tx key]
  have 1: "\<forall>s. fst (sendViaRelayer X pk url tx key w) = Inr s \<longrightarrow> s = ''DRY_RUN_SIGNATURE''"
    unfolding d by (simp split: option.split)
  have 2: "is_pubkey X pk \<and> rpc_error (chain w) = None \<longrightarrow>
            sendViaRelayer X pk url tx key w =
              (Inr ''DRY_RUN_SIGNATURE'',
               w\<lparr>trace := trace w @ [GetLatestBlockhash, Serialize (finalize tx pk (chain w))]\<rparr>)"
    unfolding d by simp
  have 3: "\<forall>msg. is_pubkey X pk \<and> rpc_error (chain w) = Some msg \<longrightarrow>
            sendViaRelayer X pk url tx key w =
              (Inl msg, w\<lparr>trace := trace w @ [GetLatestBlockhash]\<rparr>)"
    unfolding d by simp
  have 4: "\<not> is_pubkey X pk \<longrightarrow>
            sendViaRelayer X pk url tx key w = (Inl ''Invalid public key input'', w)"
    unfolding d by simp
  have 5: "mint_json (snd (sendViaRelayer X pk url tx key w)) = mint_json w"
    unfolding d by (simp split: option.split)
  have 6: "posts (snd (sendViaRelayer X pk url tx key w)) = posts w"
    unfolding d by (simp split: option.split)
  have 7: "posted (new_events w (snd (sendViaRelayer X pk url tx key w))) = []"
    unfolding d by (simp split: option.split)
  note k = frame_of [OF framed_createTokenMint] frame_of [OF framed_mintInitialSupply]
    frame_of [OF framed_setTokenMetadata]
    frame_of [OF offline_of_reading [OF framed_lockAuthorities]] frame_of [OF framed_runAllSteps]
  show ?thesis
    by (intro conjI) (rule 1 2 3 4 5 6 7 k)+
qed

lemma ex_world_dry_simps:
  "DRY_RUN (env ex_world_dry) = Some ''true''"
  "RELAYER_PUBKEY (env ex_world_dry) = Some ''Relayer''"
  "rpc_error (chain ex_world_dry) = None" "chain ex_world_dry = ex_chain"
  "mint_json ex_world_dry = None" "posts ex_world_dry = 0" "trace ex_world_dry = []"
  "DRY_RUN (env ex_world_down) = Some ''true''"
  "rpc_error (chain ex_world_down) = Some ''fetch failed''"
  "trace ex_world_down = []"
  by (simp_all add: ex_world_down_def ex_world_dry_def ex_world_def ex_env_def ex_chain_def)

theorem dry_run_reads_anchor_and_keeps_checkpoint_witness:
  "sendViaRelayer ex_X ''Relayer'' ''https://relay'' ex_tx None ex_world_dry =
     (Inr ''DRY_RUN_SIGNATURE'',
      ex_world_dry\<lparr>trace := trace ex_world_dry @
         [GetLatestBlockhash, Serialize (finalize ex_tx ''Relayer'' (chain ex_world_dry))]\<rparr>) \<and>
   sendViaRelayer ex_X ''Relayer'' ''https://relay'' ex_tx None ex_world_down =
     (Inl ''fetch failed'', ex_world_down\<lparr>trace := trace ex_world_down @ [GetLatestBlockhash]\<rparr>) \<and>
   mint_json (snd (createTokenMint ex_X ex_world_dry)) = None \<and>
   posts (snd (createTokenMint ex_X ex_world_dry)) = 0 \<and>
   mint_json (snd (runAllSteps ex_X ex_world_dry)) = None \<and>
   serialized (new_events ex_world_dry (snd (runAllSteps ex_X ex_world_dry))) = []"
proof -
  note T = dry_run_reads_anchor_and_keeps_checkpoint
             [OF ex_world_dry_simps(1), of ex_X "''Relayer''" "''https://relay''" ex_tx None]
  note U = dry_run_reads_anchor_and_keeps_checkpoint
             [OF ex_world_dry_simps(8), of ex_X "''Relayer''" "''https://relay''" ex_tx None]
  from T [THEN conjunct2, THEN conjunct1] ex_valid(1) ex_world_dry_simps(3)
  have t: "sendViaRelayer ex_X ''Relayer'' ''https://relay'' ex_tx None ex_world_dry =
     (Inr ''DRY_RUN_SIGNATURE'',
      ex_world_dry\<lparr>trace := trace ex_world_dry @
         [GetLatestBlockhash, Serialize (finalize ex_tx ''Relayer'' (chain ex_world_dry))]\<rparr>)"
    by (simp only: simp_thms)
  from U [THEN conjunct2, THEN conjunct2, THEN conjunct1] ex_valid(1) ex_world_dry_simps(9)
  have u: "sendViaRelayer ex_X ''Relayer'' ''https://relay'' ex_tx None ex_world_down =
     (Inl ''fetch failed'', ex_world_down\<lparr>trace := trace ex_world_down @ [GetLatestBlockhash]\<rparr>)"
    by blast
  note k1 = T [THEN conjunct2, THEN conjunct2, THEN conjunct2, THEN conjunct2, THEN conjunct2,
               THEN conjunct2, THEN conjunct2, THEN conjunct1]
  note k5 = T [THEN conjunct2, THEN conjunct2, THEN conjunct2, THEN conjunct2, THEN conjunct2,
               THEN conjunct2, THEN conjunct2, THEN conjunct2, THEN conjunct2, THEN conjunct2,
               THEN conjunct2]
  from k1 have n: "mint_json (snd (createTokenMint ex_X ex_world_dry)) = None"
    "posts (snd (createTokenMint ex_X ex_world_dry)) = 0"
    by (simp_all add: offline_def ex_world_dry_simps)
  from k5 have m: "mint_json (snd (runAllSteps ex_X ex_world_dry)) = None"
    "serialized (new_events ex_world_dry (snd (runAllSteps ex_X ex_world_dry))) = []"
    by (simp_all add: offline_def ex_world_dry_simps)
  show ?thesis
    by (intro conjI) (rule t u n m)+
qed

text \<open>
  The claim as written (a dry run makes no network call and always returns the sentinel)
  fails: the dry-run submission reads the anchor from the ledger, and with the ledger out
  of reach it returns no signature but the error of that read.
\<close>

theorem dry_run_reads_the_ledger:
  "DRY_RUN (env ex_world_dry) = Some ''true'' \<and>
   fst (sendViaRelayer ex_X ''Relayer'' ''https://relay'' ex_tx None ex_world_dry) =
     Inr ''DRY_RUN_SIGNATURE'' \<and>
   trace (snd (sendViaRelayer ex_X ''Relayer'' ''https://relay'' ex_tx None ex_world_dry)) =
     [GetLatestBlockhash, Serialize (finalize ex_tx ''Relayer'' ex_chain)] \<and>
   anchors (trace (snd (sendViaRelayer ex_X ''Relayer'' ''https://relay'' ex_tx None ex_world_dry))) = 1 \<and>
   DRY_RUN (env ex_world_down) = Some ''true'' \<and>
   fst (sendViaRelayer ex_X ''Relayer'' ''https://relay'' ex_tx None ex_world_down) =
     Inl ''fetch failed'' \<and>
   trace (snd (sendViaRelayer ex_X ''Relayer'' ''https://relay'' ex_tx None ex_world_down)) =
     [GetLatestBlockhash]"
  by (simp add: sendViaRelayer_def ex_X_def ex_world_down_def ex_world_dry_def ex_world_def ex_env_def
        ex_chain_def ex_tx_def bindE_def gets_def new_PublicKey_def returnOk_def throwError_def
        rpc_def emit_def finalize_def Let_def)

section \<open>The dry-run choice of the menu\<close>

lemma runAllSteps_never_completes: "\<exists>e. fst (runAllSteps X w) = Inl e"
  using framed_runAllSteps by (rule never_returns)

text \<open>
  Choice \<^verbatim>\<open>'7'\<close> sets the flag and starts the full run, which throws; the error leaves the
  loop, so the session is over with exit code 1 whatever was to be typed next. The flag is
  set in the final state and the relayer was not reached.
\<close>

lemma choice_7_ends_the_session:
  "fst (grokCopilot_loop X (''7'' # later) w) = Exited 1 \<and>
   grokCopilot_loop X (''7'' # later) w = grokCopilot_loop X [''7''] w \<and>
   DRY_RUN (env (snd (grokCopilot_loop X (''7'' # later) w))) = Some ''true'' \<and>
   posts (snd (grokCopilot_loop X (''7'' # later) w)) = posts w \<and>
   posted (new_events w (snd (grokCopilot_loop X (''7'' # later) w))) = []"
proof -
  let ?w0 = "w\<lparr>env := (env w)\<lparr>DRY_RUN := Some ''true''\<rparr>\<rparr>"
  obtain r w1 where run: "runAllSteps X ?w0 = (r, w1)" by (cases "runAllSteps X ?w0")
  from runAllSteps_never_completes [of X ?w0] run obtain e where r: "r = Inl e" by auto
  from framedD [OF framed_runAllSteps run] have o: "offline ?w0 w1" by simp
  have disp: "dispatch X ''7'' w = (Inl e, w1)"
    using run r by (simp add: dispatch_def bindE_def set_dry_run_def)
  from o have "DRY_RUN (env w1) = Some ''true''" "posts w1 = posts w"
    "posted (new_events w w1) = []"
    by (simp_all add: offline_def new_events_def)
  with disp show ?thesis by simp
qed




end
